theory Spec2Isabelle
  imports Main "HOL-Library.Sublist"
begin

section \<open>JavaScript values and object lookup\<close>

text \<open>
  The field mappers of \<^verbatim>\<open>backend/src/routes/applications.ts\<close> and of
  \<^verbatim>\<open>frontend/src/pages/applications/EditApplicationPage.tsx\<close> are all of the shape
  \<^verbatim>\<open>const mapping = { k1: v1, ... }; return mapping[x] || d;\<close>.
  The table is an object literal, so \<^verbatim>\<open>mapping[x]\<close> is a JavaScript property read: it
  finds the object's own keys and, failing that, the properties every object literal inherits
  from \<^verbatim>\<open>Object.prototype\<close>. The inherited values are functions (or, for
  \<^verbatim>\<open>__proto__\<close>, the prototype object): never strings, always truthy.
\<close>

datatype jsval =
    Str string          \<comment> \<open>a string\<close>
  | Inherited string    \<comment> \<open>the value found on \<^verbatim>\<open>Object.prototype\<close> under that name\<close>

definition objectPrototypeKeys :: "string list" where
  "objectPrototypeKeys =
     [''constructor'', ''hasOwnProperty'', ''isPrototypeOf'', ''propertyIsEnumerable'',
      ''toLocaleString'', ''toString'', ''valueOf'', ''__proto__'',
      ''__defineGetter__'', ''__defineSetter__'', ''__lookupGetter__'', ''__lookupSetter__'']"

text \<open>\<^verbatim>\<open>mapping[k]\<close>; \<open>None\<close> is \<^verbatim>\<open>undefined\<close>.\<close>

definition getProp :: "(string \<times> string) list \<Rightarrow> string \<Rightarrow> jsval option" where
  "getProp mapping k =
     (case map_of mapping k of
        Some v \<Rightarrow> Some (Str v)
      | None \<Rightarrow> if k \<in> set objectPrototypeKeys then Some (Inherited k) else None)"

fun truthy :: "jsval \<Rightarrow> bool" where
  "truthy (Str s) = (s \<noteq> [])"
| "truthy (Inherited k) = True"

text \<open>\<^verbatim>\<open>a || d\<close> with a string literal \<open>d\<close> on the right.\<close>

definition orElse :: "jsval option \<Rightarrow> string \<Rightarrow> jsval" where
  "orElse a d = (case a of None \<Rightarrow> Str d | Some v \<Rightarrow> if truthy v then v else Str d)"

section \<open>Field Mapper\<close>

subsection \<open>Presentation to storage (backend)\<close>

definition employmentTypeMapping :: "(string \<times> string) list" where
  "employmentTypeMapping =
     [(''full-time'', ''full_time''), (''part-time'', ''part_time''),
      (''contract'', ''contract''), (''internship'', ''internship'')]"

definition mapEmploymentType :: "string \<Rightarrow> jsval" where
  "mapEmploymentType frontendValue = orElse (getProp employmentTypeMapping frontendValue) ''full_time''"

definition workTypeMapping :: "(string \<times> string) list" where
  "workTypeMapping = [(''remote'', ''remote''), (''hybrid'', ''hybrid''), (''on-site'', ''on_site'')]"

definition mapWorkType :: "string \<Rightarrow> jsval" where
  "mapWorkType frontendValue = orElse (getProp workTypeMapping frontendValue) ''remote''"

definition priorityMapping :: "(string \<times> string) list" where
  "priorityMapping = [(''low'', ''low''), (''medium'', ''medium''), (''high'', ''high'')]"

definition mapPriority :: "string \<Rightarrow> jsval" where
  "mapPriority frontendValue = orElse (getProp priorityMapping frontendValue) ''medium''"

definition statusMapping :: "(string \<times> string) list" where
  "statusMapping =
     [(''applied'', ''applied''), (''reviewing'', ''reviewing''),
      (''interview_scheduled'', ''interview_scheduled''), (''interviewed'', ''interviewed''),
      (''offer'', ''offer''), (''rejected'', ''rejected''), (''withdrawn'', ''withdrawn'')]"

definition mapStatus :: "string \<Rightarrow> jsval" where
  "mapStatus frontendValue = orElse (getProp statusMapping frontendValue) ''applied''"

subsection \<open>Storage to presentation (edit form)\<close>

definition reverseEmploymentTypeMapping :: "(string \<times> string) list" where
  "reverseEmploymentTypeMapping =
     [(''full_time'', ''full-time''), (''part_time'', ''part-time''),
      (''contract'', ''contract''), (''internship'', ''internship'')]"

definition reverseMapEmploymentType :: "string \<Rightarrow> jsval" where
  "reverseMapEmploymentType dbValue = orElse (getProp reverseEmploymentTypeMapping dbValue) ''full-time''"

definition reverseWorkTypeMapping :: "(string \<times> string) list" where
  "reverseWorkTypeMapping = [(''remote'', ''remote''), (''hybrid'', ''hybrid''), (''on_site'', ''on-site'')]"

definition reverseMapWorkType :: "string \<Rightarrow> jsval" where
  "reverseMapWorkType dbValue = orElse (getProp reverseWorkTypeMapping dbValue) ''remote''"

definition reversePriorityMapping :: "(string \<times> string) list" where
  "reversePriorityMapping = [(''low'', ''low''), (''medium'', ''medium''), (''high'', ''high'')]"

definition reverseMapPriority :: "string \<Rightarrow> jsval" where
  "reverseMapPriority dbValue = orElse (getProp reversePriorityMapping dbValue) ''medium''"

definition reverseStatusMapping :: "(string \<times> string) list" where
  "reverseStatusMapping =
     [(''applied'', ''applied''), (''reviewing'', ''reviewing''),
      (''interview_scheduled'', ''interview_scheduled''), (''interviewed'', ''interviewed''),
      (''offer'', ''offer''), (''rejected'', ''rejected''), (''withdrawn'', ''withdrawn'')]"

definition reverseMapStatus :: "string \<Rightarrow> jsval" where
  "reverseMapStatus dbValue = orElse (getProp reverseStatusMapping dbValue) ''applied''"

text \<open>
  The round trip \<^verbatim>\<open>toStorage(toPresentation(x))\<close>: the forward mapper takes a string, so
  the composition is defined where the reverse mapper returned one.
\<close>

definition roundTrip :: "(string \<Rightarrow> jsval) \<Rightarrow> (string \<Rightarrow> jsval) \<Rightarrow> string \<Rightarrow> jsval option" where
  "roundTrip toStorage toPresentation x =
     (case toPresentation x of Str p \<Rightarrow> Some (toStorage p) | Inherited k \<Rightarrow> None)"

section \<open>Request bodies and their validation\<close>

text \<open>
  A field of a parsed JSON body is absent (\<^verbatim>\<open>undefined\<close>), \<^verbatim>\<open>null\<close>, or a value.
  A string is the list of its code units, so \<open>length\<close> is JavaScript's \<^verbatim>\<open>.length\<close>.
  The body record carries the fields the handlers read. Values of the wrong JSON type
  (a number where a string is expected) are outside the model; the schema rejects them.
  \<^verbatim>\<open>applicationDate\<close> and \<^verbatim>\<open>applicationUrl\<close> (a date and a URL syntax check) are left
  out: the model covers requests that do not send them. The field \<^verbatim>\<open>notes\<close> is written
  \<open>notes'\<close>. \<open>ids\<close> is read by the bulk handler only: \<open>None\<close> when the
  body has no array under that key.
\<close>

datatype 'a field = Absent | Null | Val 'a

record body =
  companyId :: "int field"
  positionTitle :: "string field"
  status :: "string field"
  employmentType :: "string field"
  workType :: "string field"
  location :: "string field"
  salaryMin :: "int field"
  salaryMax :: "int field"
  source :: "string field"
  priority :: "string field"
  notes' :: "string field"
  jobDescription :: "string field"
  requirements :: "string field"
  salaryRange :: "string field"
  referralSource :: "string field"
  ids :: "int list option"

text \<open>The three ways the schema wraps a field check: required, \<^verbatim>\<open>.optional()\<close>, \<^verbatim>\<open>.optional().nullable()\<close>.\<close>

fun required :: "('a \<Rightarrow> bool) \<Rightarrow> 'a field \<Rightarrow> bool" where
  "required p (Val v) = p v"
| "required p Absent = False"
| "required p Null = False"

fun optional :: "('a \<Rightarrow> bool) \<Rightarrow> 'a field \<Rightarrow> bool" where
  "optional p (Val v) = p v"
| "optional p Absent = True"
| "optional p Null = False"

fun nullish :: "('a \<Rightarrow> bool) \<Rightarrow> 'a field \<Rightarrow> bool" where
  "nullish p (Val v) = p v"
| "nullish p Absent = True"
| "nullish p Null = True"

definition zEnum :: "string list \<Rightarrow> string \<Rightarrow> bool" where
  "zEnum values v = (v \<in> set values)"

definition zMax :: "nat \<Rightarrow> string \<Rightarrow> bool" where
  "zMax n v = (length v \<le> n)"

definition zPositive :: "int \<Rightarrow> bool" where
  "zPositive n = (0 < n)"

definition statusValues :: "string list" where
  "statusValues = [''applied'', ''reviewing'', ''interview_scheduled'', ''interviewed'',
                   ''offer'', ''rejected'', ''withdrawn'']"

text \<open>
  \<^verbatim>\<open>createApplicationSchema\<close> when \<open>partial\<close> is false;
  \<^verbatim>\<open>createApplicationSchema.partial()\<close>, which makes the two required fields optional,
  when it is true.
\<close>

definition applicationSchema :: "bool \<Rightarrow> body \<Rightarrow> bool" where
  "applicationSchema partial b =
     ((if partial then optional zPositive (companyId b) else required zPositive (companyId b)) \<and>
      (if partial then optional (\<lambda>v. 1 \<le> length v \<and> zMax 200 v) (positionTitle b)
       else required (\<lambda>v. 1 \<le> length v \<and> zMax 200 v) (positionTitle b)) \<and>
      optional (zEnum statusValues) (status b) \<and>
      optional (zEnum [''full-time'', ''part-time'', ''contract'', ''internship'']) (employmentType b) \<and>
      optional (zEnum [''remote'', ''hybrid'', ''on-site'']) (workType b) \<and>
      nullish (zMax 200) (location b) \<and>
      nullish zPositive (salaryMin b) \<and>
      nullish zPositive (salaryMax b) \<and>
      nullish (zMax 200) (source b) \<and>
      optional (zEnum [''low'', ''medium'', ''high'']) (priority b) \<and>
      nullish (zMax 2000) (notes' b) \<and>
      nullish (zMax 5000) (jobDescription b) \<and>
      nullish (zMax 3000) (requirements b) \<and>
      nullish (zMax 100) (salaryRange b) \<and>
      nullish (zMax 200) (referralSource b))"

definition createApplicationSchema :: "body \<Rightarrow> bool" where
  "createApplicationSchema = applicationSchema False"

definition updateApplicationSchema :: "body \<Rightarrow> bool" where
  "updateApplicationSchema = applicationSchema True"

section \<open>The relational store\<close>

text \<open>
  Tables of \<^verbatim>\<open>migration.sql\<close> as lists of rows in insertion order. Application rows carry
  the columns the handlers write; of the other tables only the key columns matter here.
  Enum columns hold the storage spelling as a string; the enum types list what the store
  accepts. \<open>createdAt\<close> is a timestamp read from the clock at insertion.
\<close>

definition ApplicationStatus :: "string list" where
  "ApplicationStatus = [''applied'', ''reviewing'', ''interview_scheduled'', ''interviewed'',
                        ''offer'', ''rejected'', ''withdrawn'']"

definition Priority :: "string list" where
  "Priority = [''low'', ''medium'', ''high'', ''urgent'']"

definition EmploymentType :: "string list" where
  "EmploymentType = [''full_time'', ''part_time'', ''contract'', ''internship'']"

definition WorkType :: "string list" where
  "WorkType = [''remote'', ''hybrid'', ''on_site'']"

record company =
  co_id :: int
  co_userId :: int

record application =
  app_id :: int
  app_userId :: int
  app_companyId :: int
  app_positionTitle :: string
  app_status :: string
  app_priority :: string
  app_employmentType :: "string option"
  app_workType :: "string option"
  app_location :: "string option"
  app_salaryMin :: "int option"
  app_salaryMax :: "int option"
  app_source :: "string option"
  app_notes :: "string option"
  app_jobDescription :: "string option"
  app_requirements :: "string option"
  app_salaryRange :: "string option"
  app_referralSource :: "string option"

record statusHistoryRow =
  sh_id :: int
  sh_status :: string
  sh_notes :: "string option"
  sh_createdAt :: nat
  sh_applicationId :: int

record interview =
  iv_id :: int
  iv_applicationId :: int

record task =
  tk_id :: int
  tk_applicationId :: "int option"
  tk_userId :: int

record document =
  doc_id :: int
  doc_applicationId :: "int option"
  doc_userId :: int

record store =
  companies :: "company list"
  applications :: "application list"
  statusHistory :: "statusHistoryRow list"
  interviews :: "interview list"
  tasks :: "task list"
  documents :: "document list"
  applicationSeq :: int
  statusHistorySeq :: int

text \<open>
  A store call that writes may fail (connection lost, constraint, timeout); the handler's
  \<^verbatim>\<open>catch\<close> then answers 500. Which calls fail is a parameter of every handler.
  Reads are taken to answer.
\<close>

datatype dbcall =
  ApplicationCreate | ApplicationUpdate | ApplicationDelete | ApplicationDeleteMany |
  StatusHistoryCreate | CompanyDelete

definition findApplication :: "store \<Rightarrow> int \<Rightarrow> int \<Rightarrow> application option" where
  "findApplication s i u = List.find (\<lambda>a. app_id a = i \<and> app_userId a = u) (applications s)"

definition findCompany :: "store \<Rightarrow> int \<Rightarrow> int \<Rightarrow> company option" where
  "findCompany s i u = List.find (\<lambda>c. co_id c = i \<and> co_userId c = u) (companies s)"

definition createStatusHistory :: "nat \<Rightarrow> store \<Rightarrow> int \<Rightarrow> string \<Rightarrow> string \<Rightarrow> store" where
  "createStatusHistory now s applicationId st note =
     s\<lparr>statusHistory := statusHistory s @
          [\<lparr>sh_id = statusHistorySeq s, sh_status = st, sh_notes = Some note,
            sh_createdAt = now, sh_applicationId = applicationId\<rparr>],
       statusHistorySeq := statusHistorySeq s + 1\<rparr>"

definition createApplication :: "store \<Rightarrow> application \<Rightarrow> store" where
  "createApplication s a =
     s\<lparr>applications := applications s @ [a], applicationSeq := applicationSeq s + 1\<rparr>"

definition updateApplication :: "store \<Rightarrow> int \<Rightarrow> (application \<Rightarrow> application) \<Rightarrow> store" where
  "updateApplication s i f =
     s\<lparr>applications := map (\<lambda>a. if app_id a = i then f a else a) (applications s)\<rparr>"

text \<open>
  Deleting Application rows, with the four \<^verbatim>\<open>ON DELETE CASCADE\<close> foreign keys that
  reference \<^verbatim>\<open>Application(id)\<close>: rows of StatusHistory, Interview, Task and Document whose
  \<^verbatim>\<open>applicationId\<close> is a deleted id go with it.
\<close>

definition deleteApplications :: "store \<Rightarrow> (application \<Rightarrow> bool) \<Rightarrow> store" where
  "deleteApplications s victim =
     (let gone = map app_id (filter victim (applications s)) in
      s\<lparr>applications := filter (\<lambda>a. \<not> victim a) (applications s),
        statusHistory := filter (\<lambda>h. sh_applicationId h \<notin> set gone) (statusHistory s),
        interviews := filter (\<lambda>i. iv_applicationId i \<notin> set gone) (interviews s),
        tasks := filter (\<lambda>t. case tk_applicationId t of None \<Rightarrow> True | Some i \<Rightarrow> i \<notin> set gone) (tasks s),
        documents := filter (\<lambda>d. case doc_applicationId d of None \<Rightarrow> True | Some i \<Rightarrow> i \<notin> set gone) (documents s)\<rparr>)"

text \<open>
  Deleting a Company row: \<^verbatim>\<open>Application_companyId_fkey\<close> is \<^verbatim>\<open>ON DELETE CASCADE\<close> too, so
  the Applications at that company are deleted as above.
\<close>

definition deleteCompany :: "store \<Rightarrow> int \<Rightarrow> store" where
  "deleteCompany s i =
     (deleteApplications s (\<lambda>a. app_companyId a = i))
       \<lparr>companies := filter (\<lambda>c. co_id c \<noteq> i) (companies s)\<rparr>"

text \<open>
  The history rows of one Application, in insertion order, and as the relation is included
  with an Application: \<^verbatim>\<open>statusHistory: { orderBy: { createdAt: 'desc' } }\<close>.
\<close>

definition historyOf :: "store \<Rightarrow> int \<Rightarrow> statusHistoryRow list" where
  "historyOf s i = filter (\<lambda>h. sh_applicationId h = i) (statusHistory s)"

definition historyDesc :: "store \<Rightarrow> int \<Rightarrow> statusHistoryRow list" where
  "historyDesc s i = rev (sort_key sh_createdAt (historyOf s i))"

text \<open>A StatusHistory row as the JSON object the API sends: one key per column.\<close>

datatype json = JNull | JNum int | JStr string

definition statusHistoryJson :: "statusHistoryRow \<Rightarrow> (string \<times> json) list" where
  "statusHistoryJson h =
     [(''id'', JNum (sh_id h)),
      (''status'', JStr (sh_status h)),
      (''notes'', case sh_notes h of None \<Rightarrow> JNull | Some n \<Rightarrow> JStr n),
      (''createdAt'', JNum (int (sh_createdAt h))),
      (''applicationId'', JNum (sh_applicationId h))]"

section \<open>Route handlers of the applications router\<close>

text \<open>
  \<^verbatim>\<open>parseInt(str)\<close> with no radix: leading white space, an optional sign, a
  \<^verbatim>\<open>0x\<close> prefix for base 16, then the longest run of digits; \<open>None\<close> is \<^verbatim>\<open>NaN\<close>.
  The result is the exact integer (JavaScript rounds beyond \<open>2^53\<close>).
\<close>

definition isWhiteSpace :: "char \<Rightarrow> bool" where
  "isWhiteSpace c = (c \<in> set [CHR '' '', CHR 0x09, CHR 0x0A, CHR 0x0B, CHR 0x0C, CHR 0x0D])"

definition digitOf :: "nat \<Rightarrow> char \<Rightarrow> nat option" where
  "digitOf radix c =
     (let n = (of_char c :: nat);
          d = (if 48 \<le> n \<and> n \<le> 57 then Some (n - 48)
               else if 97 \<le> n \<and> n \<le> 122 then Some (n - 87)
               else if 65 \<le> n \<and> n \<le> 90 then Some (n - 55)
               else None)
      in case d of None \<Rightarrow> None | Some v \<Rightarrow> if v < radix then Some v else None)"

definition parseInt :: "string \<Rightarrow> int option" where
  "parseInt str =
     (let s1 = dropWhile isWhiteSpace str;
          neg = (case s1 of [] \<Rightarrow> False | c # r \<Rightarrow> c = CHR ''-'');
          s2 = (case s1 of [] \<Rightarrow> [] | c # r \<Rightarrow> if c = CHR ''-'' \<or> c = CHR ''+'' then r else s1);
          hex = (take 2 s2 = ''0x'' \<or> take 2 s2 = ''0X'');
          radix = (if hex then 16 else 10);
          s3 = (if hex then drop 2 s2 else s2);
          ds = takeWhile (\<lambda>c. digitOf radix c \<noteq> None) s3;
          n = foldl (\<lambda>acc c. acc * int radix + (case digitOf radix c of None \<Rightarrow> 0 | Some v \<Rightarrow> int v)) 0 ds
      in if ds = [] then None else Some (if neg then - n else n))"

text \<open>
  A response is the HTTP status code and the JSON sent. Of the relations included with an
  Application only \<^verbatim>\<open>statusHistory\<close> is kept; the issue list of a validation error and
  the development-only \<^verbatim>\<open>error\<close> key are dropped (both depend on the request alone).
  \<open>DeletedReply n\<close> and \<open>CompanyInUse n\<close> stand for the two messages that spell out a count.
\<close>

datatype reply =
    Message string
  | ApplicationReply "string option" application "statusHistoryRow list option"
  | DeletedReply nat
  | CompanyInUse nat

type_synonym response = "nat \<times> reply"

text \<open>The value of a field where JavaScript finds it truthy.\<close>

definition truthyStr :: "string field \<Rightarrow> string option" where
  "truthyStr f = (case f of Val v \<Rightarrow> if v \<noteq> [] then Some v else None | Absent \<Rightarrow> None | Null \<Rightarrow> None)"

definition truthyNum :: "int field \<Rightarrow> int option" where
  "truthyNum f = (case f of Val n \<Rightarrow> if n \<noteq> 0 then Some n else None | Absent \<Rightarrow> None | Null \<Rightarrow> None)"

text \<open>What the store accepts for an enum column; anything else makes the client throw.\<close>

definition asEnum :: "string list \<Rightarrow> jsval \<Rightarrow> string option" where
  "asEnum values v = (case v of Str x \<Rightarrow> if x \<in> set values then Some x else None | Inherited k \<Rightarrow> None)"

text \<open>\<^verbatim>\<open>x ? f(x) : d\<close>\<close>

definition mapOrDefault :: "(string \<Rightarrow> jsval) \<Rightarrow> string field \<Rightarrow> string \<Rightarrow> jsval" where
  "mapOrDefault f x d = (case truthyStr x of Some v \<Rightarrow> f v | None \<Rightarrow> Str d)"

text \<open>\<^verbatim>\<open>applicationData\<close> of the create handler, as the row inserted under a fresh id.\<close>

definition applicationData :: "int \<Rightarrow> int \<Rightarrow> body \<Rightarrow> application option" where
  "applicationData newId userId b =
     (case companyId b of Val cid \<Rightarrow>
     (case positionTitle b of Val title \<Rightarrow>
     (case asEnum ApplicationStatus (mapOrDefault mapStatus (status b) ''applied'') of None \<Rightarrow> None | Some st \<Rightarrow>
     (case asEnum Priority (mapOrDefault mapPriority (priority b) ''medium'') of None \<Rightarrow> None | Some pr \<Rightarrow>
     (case asEnum EmploymentType (mapOrDefault mapEmploymentType (employmentType b) ''full_time'') of None \<Rightarrow> None | Some et \<Rightarrow>
     (case asEnum WorkType (mapOrDefault mapWorkType (workType b) ''remote'') of None \<Rightarrow> None | Some wt \<Rightarrow>
        Some \<lparr>app_id = newId, app_userId = userId, app_companyId = cid, app_positionTitle = title,
              app_status = st, app_priority = pr,
              app_employmentType = Some et, app_workType = Some wt,
              app_location = truthyStr (location b),
              app_salaryMin = truthyNum (salaryMin b),
              app_salaryMax = truthyNum (salaryMax b),
              app_source = truthyStr (source b),
              app_notes = truthyStr (notes' b),
              app_jobDescription = truthyStr (jobDescription b),
              app_requirements = truthyStr (requirements b),
              app_salaryRange = truthyStr (salaryRange b),
              app_referralSource = truthyStr (referralSource b)\<rparr>))))
      | Absent \<Rightarrow> None | Null \<Rightarrow> None)
      | Absent \<Rightarrow> None | Null \<Rightarrow> None)"

definition postHandler :: "(dbcall \<Rightarrow> bool) \<Rightarrow> nat \<Rightarrow> store \<Rightarrow> int \<Rightarrow> body \<Rightarrow> response \<times> store" where
  "postHandler fails now s userId b =
     (if \<not> createApplicationSchema b then ((400, Message ''Validation failed''), s)
      else case companyId b of
        Absent \<Rightarrow> ((400, Message ''Validation failed''), s)
      | Null \<Rightarrow> ((400, Message ''Validation failed''), s)
      | Val cid \<Rightarrow>
          (case findCompany s cid userId of
             None \<Rightarrow> ((400, Message ''Company not found or does not belong to user''), s)
           | Some company \<Rightarrow>
               (case applicationData (applicationSeq s) userId b of
                  None \<Rightarrow> ((500, Message ''Failed to create application''), s)
                | Some application \<Rightarrow>
                    if fails ApplicationCreate then ((500, Message ''Failed to create application''), s)
                    else if fails StatusHistoryCreate
                    then ((500, Message ''Failed to create application''), createApplication s application)
                    else ((201, ApplicationReply (Some ''Application created successfully'') application None),
                          createStatusHistory now (createApplication s application)
                            (app_id application) (app_status application) ''Application created''))))"

text \<open>
  \<^verbatim>\<open>updateData\<close> of the update handler, applied to a row. Core fields are set when truthy,
  the others when not \<^verbatim>\<open>undefined\<close>; a \<^verbatim>\<open>null\<close> handed to a mapper is read as the key
  \<^verbatim>\<open>"null"\<close>. \<open>None\<close>: the store rejects an enum value.
\<close>

definition setIfTruthy :: "string list \<Rightarrow> (string \<Rightarrow> jsval) \<Rightarrow> string field \<Rightarrow> string \<Rightarrow> string option" where
  "setIfTruthy values f x old = (case truthyStr x of None \<Rightarrow> Some old | Some v \<Rightarrow> asEnum values (f v))"

definition mapIfDefined ::
  "string list \<Rightarrow> (string \<Rightarrow> jsval) \<Rightarrow> string field \<Rightarrow> string option \<Rightarrow> string option option" where
  "mapIfDefined values f x old =
     (case x of Absent \<Rightarrow> Some old
      | Null \<Rightarrow> map_option Some (asEnum values (f ''null''))
      | Val v \<Rightarrow> map_option Some (asEnum values (f v)))"

definition setIfDefined :: "'a field \<Rightarrow> 'a option \<Rightarrow> 'a option" where
  "setIfDefined x old = (case x of Absent \<Rightarrow> old | Null \<Rightarrow> None | Val v \<Rightarrow> Some v)"

definition updateData :: "body \<Rightarrow> application \<Rightarrow> application option" where
  "updateData b a =
     (case setIfTruthy ApplicationStatus mapStatus (status b) (app_status a) of None \<Rightarrow> None | Some st \<Rightarrow>
     (case setIfTruthy Priority mapPriority (priority b) (app_priority a) of None \<Rightarrow> None | Some pr \<Rightarrow>
     (case mapIfDefined EmploymentType mapEmploymentType (employmentType b) (app_employmentType a) of None \<Rightarrow> None | Some et \<Rightarrow>
     (case mapIfDefined WorkType mapWorkType (workType b) (app_workType a) of None \<Rightarrow> None | Some wt \<Rightarrow>
        Some (a\<lparr>app_positionTitle := (case truthyStr (positionTitle b) of Some t \<Rightarrow> t | None \<Rightarrow> app_positionTitle a),
                app_companyId := (case truthyNum (companyId b) of Some c \<Rightarrow> c | None \<Rightarrow> app_companyId a),
                app_status := st, app_priority := pr,
                app_employmentType := et, app_workType := wt,
                app_location := setIfDefined (location b) (app_location a),
                app_salaryMin := setIfDefined (salaryMin b) (app_salaryMin a),
                app_salaryMax := setIfDefined (salaryMax b) (app_salaryMax a),
                app_source := setIfDefined (source b) (app_source a),
                app_notes := setIfDefined (notes' b) (app_notes a),
                app_jobDescription := setIfDefined (jobDescription b) (app_jobDescription a),
                app_requirements := setIfDefined (requirements b) (app_requirements a),
                app_salaryRange := setIfDefined (salaryRange b) (app_salaryRange a),
                app_referralSource := setIfDefined (referralSource b) (app_referralSource a)\<rparr>)))))"

text \<open>
  \<^verbatim>\<open>validatedData.status && validatedData.status !== existingApplication.status\<close>:
  the requested status when the condition holds.
\<close>

definition statusChanged :: "body \<Rightarrow> application \<Rightarrow> string option" where
  "statusChanged b existingApplication =
     (case truthyStr (status b) of
        None \<Rightarrow> None
      | Some v \<Rightarrow> if v \<noteq> app_status existingApplication then Some v else None)"

definition putHandler ::
  "(dbcall \<Rightarrow> bool) \<Rightarrow> nat \<Rightarrow> store \<Rightarrow> int \<Rightarrow> string \<Rightarrow> body \<Rightarrow> response \<times> store" where
  "putHandler fails now s userId idParam b =
     (case parseInt idParam of
        None \<Rightarrow> ((400, Message ''Invalid application ID''), s)
      | Some applicationId \<Rightarrow>
          (if \<not> updateApplicationSchema b then ((400, Message ''Validation failed''), s)
           else
             (case findApplication s applicationId userId of
                None \<Rightarrow> ((404, Message ''Application not found''), s)
              | Some existingApplication \<Rightarrow>
                  (if (case truthyNum (companyId b) of
                         None \<Rightarrow> False
                       | Some cid \<Rightarrow> findCompany s cid userId = None)
                   then ((400, Message ''Company not found or does not belong to user''), s)
                   else
                     (case updateData b existingApplication of
                        None \<Rightarrow> ((500, Message ''Failed to update application''), s)
                      | Some application \<Rightarrow>
                          (if fails ApplicationUpdate
                           then ((500, Message ''Failed to update application''), s)
                           else
                             (let s1 = updateApplication s applicationId
                                         (\<lambda>r. (case updateData b r of None \<Rightarrow> r | Some r' \<Rightarrow> r'));
                                  ok = (200, ApplicationReply (Some ''Application updated successfully'')
                                               application (Some (historyDesc s1 (app_id application))))
                              in (case statusChanged b existingApplication of
                                    None \<Rightarrow> (ok, s1)
                                  | Some v \<Rightarrow>
                                      (if fails StatusHistoryCreate
                                       then ((500, Message ''Failed to update application''), s1)
                                       else (ok, createStatusHistory now s1 (app_id application)
                                                   (app_status application)
                                                   (''Status updated to '' @ v)))))))))))"

definition getHandler :: "store \<Rightarrow> int \<Rightarrow> string \<Rightarrow> response \<times> store" where
  "getHandler s userId idParam =
     (case parseInt idParam of
        None \<Rightarrow> ((400, Message ''Invalid application ID''), s)
      | Some applicationId \<Rightarrow>
          (case findApplication s applicationId userId of
             None \<Rightarrow> ((404, Message ''Application not found''), s)
           | Some application \<Rightarrow>
               ((200, ApplicationReply None application (Some (historyDesc s (app_id application)))), s)))"

definition deleteHandler :: "(dbcall \<Rightarrow> bool) \<Rightarrow> store \<Rightarrow> int \<Rightarrow> string \<Rightarrow> response \<times> store" where
  "deleteHandler fails s userId idParam =
     (case parseInt idParam of
        None \<Rightarrow> ((400, Message ''Invalid application ID''), s)
      | Some applicationId \<Rightarrow>
          (case findApplication s applicationId userId of
             None \<Rightarrow> ((404, Message ''Application not found''), s)
           | Some application \<Rightarrow>
               if fails ApplicationDelete then ((500, Message ''Failed to delete application''), s)
               else ((200, Message ''Application deleted successfully''),
                     deleteApplications s (\<lambda>a. app_id a = applicationId))))"

definition bulkDeleteHandler :: "(dbcall \<Rightarrow> bool) \<Rightarrow> store \<Rightarrow> int \<Rightarrow> body \<Rightarrow> response \<times> store" where
  "bulkDeleteHandler fails s userId b =
     (case ids b of
        None \<Rightarrow> ((400, Message ''Invalid or empty IDs array''), s)
      | Some is \<Rightarrow>
          if is = [] then ((400, Message ''Invalid or empty IDs array''), s)
          else
            let owned = (\<lambda>a. app_id a \<in> set is \<and> app_userId a = userId) in
            if length (filter owned (applications s)) \<noteq> length is
            then ((400, Message ''Some applications not found or do not belong to user''), s)
            else if fails ApplicationDeleteMany
            then ((500, Message ''Failed to delete applications''), s)
            else ((200, DeletedReply (length (filter owned (applications s)))),
                  deleteApplications s owned))"

text \<open>
  \<^verbatim>\<open>DELETE /api/companies/:id\<close> of the companies router: the one store call outside the
  applications router that could reach Application rows and, through them, their history.
  \<^verbatim>\<open>company._count.applications\<close> is the number of Applications at the company.
\<close>

definition deleteCompanyHandler :: "(dbcall \<Rightarrow> bool) \<Rightarrow> store \<Rightarrow> int \<Rightarrow> string \<Rightarrow> response \<times> store" where
  "deleteCompanyHandler fails s userId idParam =
     (case parseInt idParam of
        None \<Rightarrow> ((400, Message ''Invalid company ID''), s)
      | Some cid \<Rightarrow>
          (case findCompany s cid userId of
             None \<Rightarrow> ((404, Message ''Company not found''), s)
           | Some company \<Rightarrow>
               (let n = length (filter (\<lambda>a. app_companyId a = co_id company) (applications s)) in
                if n > 0 then ((400, CompanyInUse n), s)
                else if fails CompanyDelete then ((500, Message ''Failed to delete company''), s)
                else ((200, Message ''Company deleted successfully''), deleteCompany s cid))))"

section \<open>Routing\<close>

text \<open>
  The router tries its routes in the order they were registered and runs the first whose
  verb and path pattern match; no handler above calls \<^verbatim>\<open>next()\<close>. A request path is
  its list of segments below the mount point \<^verbatim>\<open>/api/applications\<close>. A literal segment
  matches without regard to case; \<^verbatim>\<open>:id\<close> matches any one non-empty segment.
\<close>

datatype verb = GET | POST | PUT | DELETE

datatype pattern = Root | Param | Literal string

datatype handler =
  GetApplications | GetApplication | CreateApplication | UpdateApplication |
  DeleteApplication | BulkDeleteApplications

definition toLower :: "char \<Rightarrow> char" where
  "toLower c = (let n = (of_char c :: nat) in if 65 \<le> n \<and> n \<le> 90 then char_of (n + 32) else c)"

fun matchPath :: "pattern \<Rightarrow> string list \<Rightarrow> string list option" where
  "matchPath Root path = (if path = [] then Some [] else None)"
| "matchPath Param path = (case path of [seg] \<Rightarrow> if seg \<noteq> [] then Some [seg] else None | _ \<Rightarrow> None)"
| "matchPath (Literal l) path = (case path of [seg] \<Rightarrow> if map toLower seg = map toLower l then Some [] else None | _ \<Rightarrow> None)"

definition routes :: "(verb \<times> pattern \<times> handler) list" where
  "routes =
     [(GET, Root, GetApplications),
      (GET, Param, GetApplication),
      (POST, Root, CreateApplication),
      (PUT, Param, UpdateApplication),
      (DELETE, Param, DeleteApplication),
      (DELETE, Literal ''bulk'', BulkDeleteApplications)]"

fun matchRoute :: "(verb \<times> pattern \<times> handler) list \<Rightarrow> verb \<Rightarrow> string list \<Rightarrow> (handler \<times> string list) option" where
  "matchRoute [] m path = None"
| "matchRoute ((m', p, h) # rs) m path =
     (if m' = m then
        (case matchPath p path of Some params \<Rightarrow> Some (h, params) | None \<Rightarrow> matchRoute rs m path)
      else matchRoute rs m path)"

record request =
  req_method :: verb
  req_path :: "string list"
  req_user :: int
  req_body :: body

text \<open>
  \<^verbatim>\<open>req.params.id\<close>; a route without the parameter reads \<^verbatim>\<open>undefined\<close>, which
  \<^verbatim>\<open>parseInt\<close> turns into the string \<^verbatim>\<open>"undefined"\<close>.
\<close>

definition paramsId :: "string list \<Rightarrow> string" where
  "paramsId params = (case params of [] \<Rightarrow> ''undefined'' | p # ps \<Rightarrow> p)"

text \<open>
  Serving one authenticated request (\<open>req_user\<close> is the id that \<^verbatim>\<open>authenticateToken\<close> put on
  the request). The listing handler \<^verbatim>\<open>GET /\<close> only reads and is not modelled further.
\<close>

datatype outcome = Handled response store | Listing | NoRoute

definition serve :: "(dbcall \<Rightarrow> bool) \<Rightarrow> nat \<Rightarrow> store \<Rightarrow> request \<Rightarrow> outcome" where
  "serve fails now s req =
     (case matchRoute routes (req_method req) (req_path req) of
        None \<Rightarrow> NoRoute
      | Some (h, params) \<Rightarrow>
          (case h of
             GetApplications \<Rightarrow> Listing
           | GetApplication \<Rightarrow> (case getHandler s (req_user req) (paramsId params) of (r, s') \<Rightarrow> Handled r s')
           | CreateApplication \<Rightarrow> (case postHandler fails now s (req_user req) (req_body req) of (r, s') \<Rightarrow> Handled r s')
           | UpdateApplication \<Rightarrow>
               (case putHandler fails now s (req_user req) (paramsId params) (req_body req) of (r, s') \<Rightarrow> Handled r s')
           | DeleteApplication \<Rightarrow>
               (case deleteHandler fails s (req_user req) (paramsId params) of (r, s') \<Rightarrow> Handled r s')
           | BulkDeleteApplications \<Rightarrow>
               (case bulkDeleteHandler fails s (req_user req) (req_body req) of (r, s') \<Rightarrow> Handled r s')))"

text \<open>
  The operations whose store calls can reach the StatusHistory table: a request to the
  applications router, and the deletion of a company by a user.
\<close>

datatype operation = Applications request | DeleteCompany int string

definition perform :: "(dbcall \<Rightarrow> bool) \<Rightarrow> nat \<Rightarrow> store \<Rightarrow> operation \<Rightarrow> outcome" where
  "perform fails now s operation =
     (case operation of
        Applications req \<Rightarrow> serve fails now s req
      | DeleteCompany userId idParam \<Rightarrow>
          (case deleteCompanyHandler fails s userId idParam of (r, s') \<Rightarrow> Handled r s'))"

section \<open>Example data\<close>

definition noFault :: "dbcall \<Rightarrow> bool" where
  "noFault c = False"

definition historyFault :: "dbcall \<Rightarrow> bool" where
  "historyFault c = (c = StatusHistoryCreate)"

definition emptyBody :: body where
  "emptyBody =
     \<lparr>companyId = Absent, positionTitle = Absent, status = Absent, employmentType = Absent,
      workType = Absent, location = Absent, salaryMin = Absent, salaryMax = Absent,
      source = Absent, priority = Absent, notes' = Absent, jobDescription = Absent,
      requirements = Absent, salaryRange = Absent, referralSource = Absent, ids = None\<rparr>"

text \<open>User 1 owns company 7; nothing else is stored.\<close>

definition store0 :: store where
  "store0 =
     \<lparr>companies = [\<lparr>co_id = 7, co_userId = 1\<rparr>], applications = [], statusHistory = [],
      interviews = [], tasks = [], documents = [], applicationSeq = 1, statusHistorySeq = 1\<rparr>"

definition createBody :: body where
  "createBody = emptyBody\<lparr>companyId := Val 7, positionTitle := Val ''Engineer''\<rparr>"

text \<open>The store after user 1 has created an Application at time 10 with the status left out.\<close>

definition application1 :: application where
  "application1 =
     \<lparr>app_id = 1, app_userId = 1, app_companyId = 7, app_positionTitle = ''Engineer'',
      app_status = ''applied'', app_priority = ''medium'',
      app_employmentType = Some ''full_time'', app_workType = Some ''remote'',
      app_location = None, app_salaryMin = None, app_salaryMax = None, app_source = None,
      app_notes = None, app_jobDescription = None, app_requirements = None,
      app_salaryRange = None, app_referralSource = None\<rparr>"

definition entry1 :: statusHistoryRow where
  "entry1 = \<lparr>sh_id = 1, sh_status = ''applied'', sh_notes = Some ''Application created'',
             sh_createdAt = 10, sh_applicationId = 1\<rparr>"

definition store1 :: store where
  "store1 =
     \<lparr>companies = [\<lparr>co_id = 7, co_userId = 1\<rparr>], applications = [application1],
      statusHistory = [entry1], interviews = [], tasks = [], documents = [],
      applicationSeq = 2, statusHistorySeq = 2\<rparr>"

text \<open>The store after the same create with the status \<^verbatim>\<open>rejected\<close> supplied.\<close>

definition rejectedBody :: body where
  "rejectedBody = createBody\<lparr>status := Val ''rejected''\<rparr>"

definition entry1_rejected :: statusHistoryRow where
  "entry1_rejected = entry1\<lparr>sh_status := ''rejected''\<rparr>"

definition store1_rejected :: store where
  "store1_rejected =
     store1\<lparr>applications := [application1\<lparr>app_status := ''rejected''\<rparr>],
            statusHistory := [entry1_rejected]\<rparr>"

text \<open>An update to \<^verbatim>\<open>offer\<close> at time 20, and the store after it.\<close>

definition offerBody :: body where
  "offerBody = emptyBody\<lparr>status := Val ''offer''\<rparr>"

definition entry2 :: statusHistoryRow where
  "entry2 = \<lparr>sh_id = 2, sh_status = ''offer'', sh_notes = Some ''Status updated to offer'',
             sh_createdAt = 20, sh_applicationId = 1\<rparr>"

definition store2 :: store where
  "store2 =
     \<lparr>companies = [\<lparr>co_id = 7, co_userId = 1\<rparr>],
      applications = [application1\<lparr>app_status := ''offer''\<rparr>],
      statusHistory = [entry1, entry2], interviews = [], tasks = [], documents = [],
      applicationSeq = 2, statusHistorySeq = 3\<rparr>"

text \<open>Store 2 with an interview, a task and a document attached to Application 1.\<close>

definition store3 :: store where
  "store3 =
     store2\<lparr>interviews := [\<lparr>iv_id = 1, iv_applicationId = 1\<rparr>],
            tasks := [\<lparr>tk_id = 1, tk_applicationId = Some 1, tk_userId = 1\<rparr>,
                      \<lparr>tk_id = 2, tk_applicationId = None, tk_userId = 1\<rparr>],
            documents := [\<lparr>doc_id = 1, doc_applicationId = Some 1, doc_userId = 1\<rparr>]\<rparr>"

text \<open>Store 3 once Application 1 and everything that hangs on it is gone.\<close>

definition store3_deleted :: store where
  "store3_deleted =
     store3\<lparr>applications := [], statusHistory := [], interviews := [],
            tasks := [\<lparr>tk_id = 2, tk_applicationId = None, tk_userId = 1\<rparr>], documents := []\<rparr>"

text \<open>Store 1 with the status written and no history entry added.\<close>

definition store1_offer :: store where
  "store1_offer = store1\<lparr>applications := [application1\<lparr>app_status := ''offer''\<rparr>]\<rparr>"


definition urgentBody :: body where
  "urgentBody = createBody\<lparr>priority := Val ''urgent''\<rparr>"

section \<open>Field Mapper: round trip and defaults\<close>

lemmas mapper_defs =
  mapEmploymentType_def mapWorkType_def mapPriority_def mapStatus_def
  employmentTypeMapping_def workTypeMapping_def priorityMapping_def statusMapping_def
  orElse_def getProp_def

lemmas reverse_mapper_defs =
  reverseMapEmploymentType_def reverseMapWorkType_def reverseMapPriority_def reverseMapStatus_def
  reverseEmploymentTypeMapping_def reverseWorkTypeMapping_def reversePriorityMapping_def
  reverseStatusMapping_def

lemma roundTrip_employmentType:
  assumes "x \<in> fst ` set reverseEmploymentTypeMapping"
  shows "roundTrip mapEmploymentType reverseMapEmploymentType x = Some (Str x)"
proof -
  from assms have "x = ''full_time'' \<or> x = ''part_time'' \<or> x = ''contract'' \<or> x = ''internship''"
    by (simp add: reverseEmploymentTypeMapping_def)
  then show ?thesis
    by (elim disjE) (simp_all add: roundTrip_def mapper_defs reverse_mapper_defs)
qed

lemma roundTrip_workType:
  assumes "x \<in> fst ` set reverseWorkTypeMapping"
  shows "roundTrip mapWorkType reverseMapWorkType x = Some (Str x)"
proof -
  from assms have "x = ''remote'' \<or> x = ''hybrid'' \<or> x = ''on_site''"
    by (simp add: reverseWorkTypeMapping_def)
  then show ?thesis
    by (elim disjE) (simp_all add: roundTrip_def mapper_defs reverse_mapper_defs)
qed

lemma roundTrip_priority:
  assumes "x \<in> fst ` set reversePriorityMapping"
  shows "roundTrip mapPriority reverseMapPriority x = Some (Str x)"
proof -
  from assms have "x = ''low'' \<or> x = ''medium'' \<or> x = ''high''"
    by (simp add: reversePriorityMapping_def)
  then show ?thesis
    by (elim disjE) (simp_all add: roundTrip_def mapper_defs reverse_mapper_defs)
qed

lemma roundTrip_status:
  assumes "x \<in> fst ` set reverseStatusMapping"
  shows "roundTrip mapStatus reverseMapStatus x = Some (Str x)"
proof -
  from assms have "x = ''applied'' \<or> x = ''reviewing'' \<or> x = ''interview_scheduled''
    \<or> x = ''interviewed'' \<or> x = ''offer'' \<or> x = ''rejected'' \<or> x = ''withdrawn''"
    by (simp add: reverseStatusMapping_def)
  then show ?thesis
    by (elim disjE) (simp_all add: roundTrip_def mapper_defs reverse_mapper_defs)
qed

text \<open>
  C4. For each of the four fields and every storage value \<open>x\<close> that is a key of the
  storage-to-presentation table, the reverse mapper returns a string and the forward mapper
  sends that string back to \<open>x\<close>.
\<close>

theorem fieldMapper_roundTrip:
  "(\<forall>x \<in> fst ` set reverseEmploymentTypeMapping.
      roundTrip mapEmploymentType reverseMapEmploymentType x = Some (Str x)) \<and>
   (\<forall>x \<in> fst ` set reverseWorkTypeMapping.
      roundTrip mapWorkType reverseMapWorkType x = Some (Str x)) \<and>
   (\<forall>x \<in> fst ` set reversePriorityMapping.
      roundTrip mapPriority reverseMapPriority x = Some (Str x)) \<and>
   (\<forall>x \<in> fst ` set reverseStatusMapping.
      roundTrip mapStatus reverseMapStatus x = Some (Str x))"
  by (intro conjI ballI roundTrip_employmentType roundTrip_workType roundTrip_priority
      roundTrip_status)

text \<open>The round trip at one key of each table.\<close>

theorem fieldMapper_roundTrip_witness:
  "''full_time'' \<in> fst ` set reverseEmploymentTypeMapping \<and>
   roundTrip mapEmploymentType reverseMapEmploymentType ''full_time'' = Some (Str ''full_time'') \<and>
   ''on_site'' \<in> fst ` set reverseWorkTypeMapping \<and>
   roundTrip mapWorkType reverseMapWorkType ''on_site'' = Some (Str ''on_site'') \<and>
   ''high'' \<in> fst ` set reversePriorityMapping \<and>
   roundTrip mapPriority reverseMapPriority ''high'' = Some (Str ''high'') \<and>
   ''interview_scheduled'' \<in> fst ` set reverseStatusMapping \<and>
   roundTrip mapStatus reverseMapStatus ''interview_scheduled'' = Some (Str ''interview_scheduled'')"
proof -
  have e: "''full_time'' \<in> fst ` set reverseEmploymentTypeMapping"
    by (simp add: reverseEmploymentTypeMapping_def)
  have w: "''on_site'' \<in> fst ` set reverseWorkTypeMapping"
    by (simp add: reverseWorkTypeMapping_def)
  have p: "''high'' \<in> fst ` set reversePriorityMapping"
    by (simp add: reversePriorityMapping_def)
  have s: "''interview_scheduled'' \<in> fst ` set reverseStatusMapping"
    by (simp add: reverseStatusMapping_def)
  note rt = fieldMapper_roundTrip
  have r1: "roundTrip mapEmploymentType reverseMapEmploymentType ''full_time'' = Some (Str ''full_time'')"
    using rt [THEN conjunct1] e by (rule bspec)
  have r2: "roundTrip mapWorkType reverseMapWorkType ''on_site'' = Some (Str ''on_site'')"
    using rt [THEN conjunct2, THEN conjunct1] w by (rule bspec)
  have r3: "roundTrip mapPriority reverseMapPriority ''high'' = Some (Str ''high'')"
    using rt [THEN conjunct2, THEN conjunct2, THEN conjunct1] p by (rule bspec)
  have r4: "roundTrip mapStatus reverseMapStatus ''interview_scheduled'' = Some (Str ''interview_scheduled'')"
    using rt [THEN conjunct2, THEN conjunct2, THEN conjunct2] s by (rule bspec)
  from e r1 w r2 p r3 s r4 show ?thesis by (intro conjI)
qed

lemma getProp_absent:
  "x \<notin> fst ` set m \<Longrightarrow> x \<notin> set objectPrototypeKeys \<Longrightarrow> getProp m x = None"
  by (simp add: getProp_def map_of_eq_None_iff [THEN iffD2])

text \<open>
  C5, as stated, fails: \<^verbatim>\<open>constructor\<close> and \<^verbatim>\<open>toString\<close> are keys of no mapping table,
  yet the mappers do not return the default for them. The property read finds the value
  inherited from \<^verbatim>\<open>Object.prototype\<close>, which is truthy, so \<^verbatim>\<open>||\<close> keeps it.
\<close>

theorem mapper_default_counterexample:
  "''constructor'' \<notin> fst ` set employmentTypeMapping \<and>
   mapEmploymentType ''constructor'' = Inherited ''constructor'' \<and>
   mapEmploymentType ''constructor'' \<noteq> Str ''full_time'' \<and>
   ''toString'' \<notin> fst ` set statusMapping \<and>
   mapStatus ''toString'' = Inherited ''toString'' \<and>
   mapStatus ''toString'' \<noteq> Str ''applied''"
  by (simp add: mapper_defs objectPrototypeKeys_def)

text \<open>
  In the routes the mappers only ever see values the schema has let through, and those are
  keys of the tables.
\<close>

lemma validated_values_are_keys:
  "zEnum [''full-time'', ''part-time'', ''contract'', ''internship''] v \<Longrightarrow>
     v \<in> fst ` set employmentTypeMapping"
  "zEnum [''remote'', ''hybrid'', ''on-site''] v \<Longrightarrow> v \<in> fst ` set workTypeMapping"
  "zEnum [''low'', ''medium'', ''high''] v \<Longrightarrow> v \<in> fst ` set priorityMapping"
  "zEnum statusValues v \<Longrightarrow> v \<in> fst ` set statusMapping"
  by (simp_all add: zEnum_def statusValues_def employmentTypeMapping_def workTypeMapping_def
      priorityMapping_def statusMapping_def)

text \<open>
  C5, amended. For every input string that is neither a key of the mapper's table nor the
  name of a property inherited from \<^verbatim>\<open>Object.prototype\<close>, the mapper returns the field's
  default: \<^verbatim>\<open>full_time\<close>, \<^verbatim>\<open>remote\<close>, \<^verbatim>\<open>medium\<close>, \<^verbatim>\<open>applied\<close>.
\<close>

theorem mapper_default_unless_inherited:
  assumes "x \<notin> set objectPrototypeKeys"
  shows "(x \<notin> fst ` set employmentTypeMapping \<longrightarrow> mapEmploymentType x = Str ''full_time'') \<and>
         (x \<notin> fst ` set workTypeMapping \<longrightarrow> mapWorkType x = Str ''remote'') \<and>
         (x \<notin> fst ` set priorityMapping \<longrightarrow> mapPriority x = Str ''medium'') \<and>
         (x \<notin> fst ` set statusMapping \<longrightarrow> mapStatus x = Str ''applied'')"
  using assms
  by (simp add: mapEmploymentType_def mapWorkType_def mapPriority_def mapStatus_def
      orElse_def getProp_absent)

text \<open>The input \<^verbatim>\<open>urgent\<close> is in no table and not inherited: all four mappers default.\<close>

theorem mapper_default_unless_inherited_witness:
  "''urgent'' \<notin> set objectPrototypeKeys \<and>
   ''urgent'' \<notin> fst ` set employmentTypeMapping \<and> mapEmploymentType ''urgent'' = Str ''full_time'' \<and>
   ''urgent'' \<notin> fst ` set workTypeMapping \<and> mapWorkType ''urgent'' = Str ''remote'' \<and>
   ''urgent'' \<notin> fst ` set priorityMapping \<and> mapPriority ''urgent'' = Str ''medium'' \<and>
   ''urgent'' \<notin> fst ` set statusMapping \<and> mapStatus ''urgent'' = Str ''applied''"
proof -
  have k: "''urgent'' \<notin> set objectPrototypeKeys"
    by (simp add: objectPrototypeKeys_def)
  have t1: "''urgent'' \<notin> fst ` set employmentTypeMapping"
    by (simp add: employmentTypeMapping_def)
  have t2: "''urgent'' \<notin> fst ` set workTypeMapping"
    by (simp add: workTypeMapping_def)
  have t3: "''urgent'' \<notin> fst ` set priorityMapping"
    by (simp add: priorityMapping_def)
  have t4: "''urgent'' \<notin> fst ` set statusMapping"
    by (simp add: statusMapping_def)
  note d = mapper_default_unless_inherited [OF k]
  have r1: "mapEmploymentType ''urgent'' = Str ''full_time''"
    using d [THEN conjunct1] t1 by (rule mp)
  have r2: "mapWorkType ''urgent'' = Str ''remote''"
    using d [THEN conjunct2, THEN conjunct1] t2 by (rule mp)
  have r3: "mapPriority ''urgent'' = Str ''medium''"
    using d [THEN conjunct2, THEN conjunct2, THEN conjunct1] t3 by (rule mp)
  have r4: "mapStatus ''urgent'' = Str ''applied''"
    using d [THEN conjunct2, THEN conjunct2, THEN conjunct2] t4 by (rule mp)
  from k t1 r1 t2 r2 t3 r3 t4 r4 show ?thesis by (intro conjI)
qed
section \<open>Routing: the bulk route\<close>

lemma parseInt_bulk: "parseInt ''bulk'' = None"
  by (simp add: parseInt_def digitOf_def isWhiteSpace_def)

lemma matchRoute_never_bulk:
  "map_option fst (matchRoute routes m pth) \<noteq> Some BulkDeleteApplications"
proof (cases "matchPath Param pth")
  case None
  then have "matchPath (Literal ''bulk'') pth = None"
    by (auto split: list.splits if_splits)
  with None show ?thesis
    by (cases m) (simp_all add: routes_def split: option.splits)
next
  case (Some ps)
  then show ?thesis
    by (cases m) (simp_all add: routes_def split: option.splits)
qed

text \<open>
  C10. A \<^verbatim>\<open>DELETE\<close> of the path \<^verbatim>\<open>/bulk\<close> is served by the single-delete handler with
  \<^verbatim>\<open>id = "bulk"\<close>: the answer is 400 \<^verbatim>\<open>Invalid application ID\<close> and the store is left as it
  was, whatever the store, the user, the body and the faults. No request at all is routed to
  the bulk-delete handler.
\<close>

theorem bulk_delete_unreachable:
  "serve fails now s \<lparr>req_method = DELETE, req_path = [''bulk''], req_user = u, req_body = b\<rparr>
     = Handled (400, Message ''Invalid application ID'') s \<and>
   (\<forall>m pth. map_option fst (matchRoute routes m pth) \<noteq> Some BulkDeleteApplications)"
proof -
  have "matchRoute routes DELETE [''bulk''] = Some (DeleteApplication, [''bulk''])"
    by (simp add: routes_def)
  then have "serve fails now s \<lparr>req_method = DELETE, req_path = [''bulk''], req_user = u, req_body = b\<rparr>
     = Handled (400, Message ''Invalid application ID'') s"
    by (simp add: serve_def paramsId_def deleteHandler_def parseInt_bulk)
  moreover have "\<forall>m pth. map_option fst (matchRoute routes m pth) \<noteq> Some BulkDeleteApplications"
    using matchRoute_never_bulk by (intro allI)
  ultimately show ?thesis by (rule conjI)
qed

section \<open>Validated values and the enums of the store\<close>

lemma mapStatus_enum:
  assumes "zEnum statusValues v"
  shows "asEnum ApplicationStatus (mapStatus v) = Some v"
proof -
  from assms have "v = ''applied'' \<or> v = ''reviewing'' \<or> v = ''interview_scheduled''
    \<or> v = ''interviewed'' \<or> v = ''offer'' \<or> v = ''rejected'' \<or> v = ''withdrawn''"
    by (simp add: zEnum_def statusValues_def)
  then show ?thesis
    by (elim disjE)
      (simp_all add: asEnum_def ApplicationStatus_def mapStatus_def statusMapping_def orElse_def getProp_def)
qed

lemma mapPriority_enum:
  assumes "zEnum [''low'', ''medium'', ''high''] v"
  shows "asEnum Priority (mapPriority v) = Some v"
proof -
  from assms have "v = ''low'' \<or> v = ''medium'' \<or> v = ''high''"
    by (simp add: zEnum_def)
  then show ?thesis
    by (elim disjE)
      (simp_all add: asEnum_def Priority_def mapPriority_def priorityMapping_def orElse_def getProp_def)
qed

lemma mapEmploymentType_enum:
  assumes "zEnum [''full-time'', ''part-time'', ''contract'', ''internship''] v"
  shows "asEnum EmploymentType (mapEmploymentType v) \<noteq> None"
proof -
  from assms have "v = ''full-time'' \<or> v = ''part-time'' \<or> v = ''contract'' \<or> v = ''internship''"
    by (simp add: zEnum_def)
  then show ?thesis
    by (elim disjE)
      (simp_all add: asEnum_def EmploymentType_def mapEmploymentType_def employmentTypeMapping_def
        orElse_def getProp_def)
qed

lemma mapWorkType_enum:
  assumes "zEnum [''remote'', ''hybrid'', ''on-site''] v"
  shows "asEnum WorkType (mapWorkType v) \<noteq> None"
proof -
  from assms have "v = ''remote'' \<or> v = ''hybrid'' \<or> v = ''on-site''"
    by (simp add: zEnum_def)
  then show ?thesis
    by (elim disjE)
      (simp_all add: asEnum_def WorkType_def mapWorkType_def workTypeMapping_def orElse_def getProp_def)
qed

lemma enum_nonempty:
  "zEnum statusValues v \<Longrightarrow> v \<noteq> []"
  "zEnum [''low'', ''medium'', ''high''] v \<Longrightarrow> v \<noteq> []"
  by (auto simp: zEnum_def statusValues_def)

text \<open>What the schema leaves of the enum fields.\<close>

lemma schema_status:
  assumes "applicationSchema partial b"
  shows "status b = Absent \<or> (\<exists>v. status b = Val v \<and> zEnum statusValues v)"
  using assms by (cases "status b") (simp_all add: applicationSchema_def)

lemma schema_priority:
  assumes "applicationSchema partial b"
  shows "priority b = Absent \<or> (\<exists>v. priority b = Val v \<and> zEnum [''low'', ''medium'', ''high''] v)"
  using assms by (cases "priority b") (simp_all add: applicationSchema_def)

lemma schema_employmentType:
  assumes "applicationSchema partial b"
  shows "employmentType b = Absent \<or>
    (\<exists>v. employmentType b = Val v \<and> zEnum [''full-time'', ''part-time'', ''contract'', ''internship''] v)"
  using assms by (cases "employmentType b") (simp_all add: applicationSchema_def)

lemma schema_workType:
  assumes "applicationSchema partial b"
  shows "workType b = Absent \<or> (\<exists>v. workType b = Val v \<and> zEnum [''remote'', ''hybrid'', ''on-site''] v)"
  using assms by (cases "workType b") (simp_all add: applicationSchema_def)

lemma setIfTruthy_status:
  assumes "applicationSchema partial b"
  shows "setIfTruthy ApplicationStatus mapStatus (status b) old =
           Some (case status b of Val v \<Rightarrow> v | Absent \<Rightarrow> old | Null \<Rightarrow> old)"
  using schema_status [OF assms]
  by (auto simp: setIfTruthy_def truthyStr_def mapStatus_enum enum_nonempty)

lemma setIfTruthy_priority:
  assumes "applicationSchema partial b"
  shows "setIfTruthy Priority mapPriority (priority b) old =
           Some (case priority b of Val v \<Rightarrow> v | Absent \<Rightarrow> old | Null \<Rightarrow> old)"
  using schema_priority [OF assms]
  by (auto simp: setIfTruthy_def truthyStr_def mapPriority_enum enum_nonempty)

lemma mapIfDefined_employmentType:
  assumes "applicationSchema partial b"
  shows "mapIfDefined EmploymentType mapEmploymentType (employmentType b) old \<noteq> None"
  using schema_employmentType [OF assms] mapEmploymentType_enum
  by (auto simp: mapIfDefined_def)

lemma mapIfDefined_workType:
  assumes "applicationSchema partial b"
  shows "mapIfDefined WorkType mapWorkType (workType b) old \<noteq> None"
  using schema_workType [OF assms] mapWorkType_enum
  by (auto simp: mapIfDefined_def)

text \<open>A body that passes the update schema always yields a row the store accepts.\<close>

lemma updateData_accepted:
  assumes "applicationSchema partial b"
  shows "\<exists>a'. updateData b a = Some a' \<and> app_id a' = app_id a \<and> app_userId a' = app_userId a \<and>
              app_status a' = (case status b of Val v \<Rightarrow> v | Absent \<Rightarrow> app_status a | Null \<Rightarrow> app_status a)"
proof -
  obtain et where et: "mapIfDefined EmploymentType mapEmploymentType (employmentType b) (app_employmentType a) = Some et"
    using mapIfDefined_employmentType [OF assms] by blast
  obtain wt where wt: "mapIfDefined WorkType mapWorkType (workType b) (app_workType a) = Some wt"
    using mapIfDefined_workType [OF assms] by blast
  show ?thesis
    by (simp add: updateData_def setIfTruthy_status [OF assms] setIfTruthy_priority [OF assms] et wt)
qed

lemma updateData_keys:
  "updateData b a = Some a' \<Longrightarrow> app_id a' = app_id a \<and> app_userId a' = app_userId a"
  by (auto simp: updateData_def split: option.splits)

section \<open>Effects of the handlers on the store\<close>

lemma statusHistory_updateApplication [simp]:
  "statusHistory (updateApplication s i f) = statusHistory s"
  by (simp add: updateApplication_def)

lemma statusHistory_createApplication [simp]:
  "statusHistory (createApplication s a) = statusHistory s"
  by (simp add: createApplication_def)

lemma statusHistory_createStatusHistory:
  "statusHistory (createStatusHistory now s i st note) =
     statusHistory s @ [\<lparr>sh_id = statusHistorySeq s, sh_status = st, sh_notes = Some note,
                          sh_createdAt = now, sh_applicationId = i\<rparr>]"
  by (simp add: createStatusHistory_def)

lemma applications_createStatusHistory [simp]:
  "applications (createStatusHistory now s i st note) = applications s"
  by (simp add: createStatusHistory_def)

lemma statusHistorySeq_other [simp]:
  "statusHistorySeq (updateApplication s i f) = statusHistorySeq s"
  "statusHistorySeq (createApplication s a) = statusHistorySeq s"
  by (simp_all add: updateApplication_def createApplication_def)

lemma applicationData_row:
  assumes "applicationData n u b = Some a" and "applicationSchema partial b"
  shows "app_id a = n \<and> app_userId a = u \<and>
         app_status a = (case status b of Val v \<Rightarrow> v | Absent \<Rightarrow> ''applied'' | Null \<Rightarrow> ''applied'')"
proof -
  have st: "asEnum ApplicationStatus (mapOrDefault mapStatus (status b) ''applied'') =
        Some (case status b of Val v \<Rightarrow> v | Absent \<Rightarrow> ''applied'' | Null \<Rightarrow> ''applied'')"
  proof (cases "status b")
    case Absent
    then show ?thesis
      by (simp add: mapOrDefault_def truthyStr_def asEnum_def ApplicationStatus_def)
  next
    case Null
    then show ?thesis
      by (simp add: mapOrDefault_def truthyStr_def asEnum_def ApplicationStatus_def)
  next
    case (Val v)
    with schema_status [OF assms(2)] have "zEnum statusValues v" by simp
    with Val show ?thesis
      by (simp add: mapOrDefault_def truthyStr_def mapStatus_enum enum_nonempty)
  qed
  from assms(1) show ?thesis
    by (auto simp: applicationData_def st split: field.splits option.splits)
qed

text \<open>What a 201 from the create handler says about the store.\<close>

lemma postHandler_created:
  assumes "postHandler fails now s u b = ((201, r), s')"
  shows "createApplicationSchema b \<and>
         (\<exists>a. applicationData (applicationSeq s) u b = Some a \<and>
              s' = createStatusHistory now (createApplication s a) (app_id a) (app_status a)
                     ''Application created'')"
  using assms
  by (simp add: postHandler_def split: if_splits field.splits option.splits)

text \<open>What a 200 from the update handler says about the store.\<close>

lemma putHandler_updated:
  assumes "putHandler fails now s u p b = ((200, r), s')" and "parseInt p = Some i"
  shows "updateApplicationSchema b \<and>
         (\<exists>e a. findApplication s i u = Some e \<and> updateData b e = Some a \<and>
            statusHistory s' =
              (case statusChanged b e of
                 None \<Rightarrow> statusHistory s
               | Some v \<Rightarrow> statusHistory s @
                   [\<lparr>sh_id = statusHistorySeq s, sh_status = app_status a,
                     sh_notes = Some (''Status updated to '' @ v),
                     sh_createdAt = now, sh_applicationId = app_id a\<rparr>]))"
  using assms
  by (auto simp: putHandler_def Let_def statusHistory_createStatusHistory
      split: if_splits option.splits)

subsection \<open>Finding rows\<close>

lemma find_map_same:
  assumes "\<And>x. P (g x) = P x"
  shows "List.find P (map g xs) = map_option g (List.find P xs)"
  by (induction xs) (simp_all add: assms)


lemma findApplication_Some:
  assumes "findApplication s i u = Some e"
  shows "e \<in> set (applications s) \<and> app_id e = i \<and> app_userId e = u"
  using assms by (auto simp: findApplication_def find_Some_iff)

lemma findApplication_updateApplication:
  assumes "\<And>r. app_id (f r) = app_id r \<and> app_userId (f r) = app_userId r"
  shows "findApplication (updateApplication s i f) j u =
           map_option (\<lambda>a. if app_id a = i then f a else a) (findApplication s j u)"
  unfolding findApplication_def updateApplication_def
  by (simp add: find_map_same assms)

lemma findApplication_createStatusHistory [simp]:
  "findApplication (createStatusHistory now s i st note) j u = findApplication s j u"
  by (simp add: findApplication_def)

subsection \<open>The update handler on an accepted request\<close>

lemma putHandler_accepted:
  assumes p: "parseInt p = Some i"
    and schema: "updateApplicationSchema b"
    and e: "findApplication s i u = Some e"
    and company: "\<forall>cid. truthyNum (companyId b) = Some cid \<longrightarrow> findCompany s cid u \<noteq> None"
    and upd: "\<not> fails ApplicationUpdate"
    and a: "updateData b e = Some a"
  shows "putHandler fails now s u p b =
     (let s1 = updateApplication s i (\<lambda>r. case updateData b r of None \<Rightarrow> r | Some r' \<Rightarrow> r');
          ok = (200, ApplicationReply (Some ''Application updated successfully'') a
                       (Some (historyDesc s1 (app_id a))))
      in case statusChanged b e of
           None \<Rightarrow> (ok, s1)
         | Some v \<Rightarrow>
             if fails StatusHistoryCreate
             then ((500, Message ''Failed to update application''), s1)
             else (ok, createStatusHistory now s1 (app_id a) (app_status a) (''Status updated to '' @ v)))"
proof -
  have c: "(case truthyNum (companyId b) of None \<Rightarrow> False | Some cid \<Rightarrow> findCompany s cid u = None) = False"
    using company by (cases "truthyNum (companyId b)") simp_all
  show ?thesis
    unfolding putHandler_def
    by (simp only: p schema e c upd a option.case if_False if_True simp_thms)
qed

section \<open>The example run\<close>

lemmas example_defs =
  store0_def store1_def store2_def application1_def entry1_def entry2_def
  createBody_def offerBody_def emptyBody_def noFault_def

lemmas schema_defs =
  createApplicationSchema_def updateApplicationSchema_def applicationSchema_def
  zEnum_def zMax_def zPositive_def statusValues_def

lemmas enum_defs =
  asEnum_def ApplicationStatus_def Priority_def EmploymentType_def WorkType_def
  mapStatus_def mapPriority_def mapEmploymentType_def mapWorkType_def
  statusMapping_def priorityMapping_def employmentTypeMapping_def workTypeMapping_def
  orElse_def getProp_def

lemmas handler_defs =
  findApplication_def findCompany_def applicationData_def updateData_def mapOrDefault_def
  setIfTruthy_def mapIfDefined_def setIfDefined_def truthyStr_def truthyNum_def statusChanged_def
  createApplication_def createStatusHistory_def updateApplication_def deleteApplications_def
  historyDesc_def historyOf_def

lemma parseInt_1: "parseInt ''1'' = Some 1"
  by (simp add: parseInt_def digitOf_def isWhiteSpace_def)

lemma example_post:
  "postHandler noFault 10 store0 1 createBody =
     ((201, ApplicationReply (Some ''Application created successfully'') application1 None), store1)"
  by (simp add: postHandler_def example_defs schema_defs enum_defs handler_defs)

lemma example_put:
  "putHandler noFault 20 store1 1 ''1'' offerBody =
     ((200, ApplicationReply (Some ''Application updated successfully'')
              (application1\<lparr>app_status := ''offer''\<rparr>) (Some [entry1])), store2)"
  by (simp add: putHandler_def parseInt_1 example_defs schema_defs enum_defs handler_defs)

lemma example_put_same:
  "putHandler noFault 30 store2 1 ''1'' offerBody =
     ((200, ApplicationReply (Some ''Application updated successfully'')
              (application1\<lparr>app_status := ''offer''\<rparr>) (Some [entry2, entry1])), store2)"
  by (simp add: putHandler_def parseInt_1 example_defs schema_defs enum_defs handler_defs)

lemma example_put_fault:
  "putHandler historyFault 20 store1 1 ''1'' offerBody =
     ((500, Message ''Failed to update application''),
      store1\<lparr>applications := [application1\<lparr>app_status := ''offer''\<rparr>]\<rparr>)"
  by (simp add: putHandler_def parseInt_1 historyFault_def
      example_defs schema_defs enum_defs handler_defs)

lemma example_post_rejected:
  "postHandler noFault 10 store0 1 rejectedBody =
     ((201, ApplicationReply (Some ''Application created successfully'')
              (application1\<lparr>app_status := ''rejected''\<rparr>) None), store1_rejected)"
  by (simp add: postHandler_def rejectedBody_def store1_rejected_def entry1_rejected_def
      example_defs schema_defs enum_defs handler_defs)

lemma example_put_rejected:
  "putHandler noFault 20 store1_rejected 1 ''1'' offerBody =
     ((200, ApplicationReply (Some ''Application updated successfully'')
              (application1\<lparr>app_status := ''offer''\<rparr>) (Some [entry1_rejected])),
      store2\<lparr>statusHistory := [entry1_rejected, entry2]\<rparr>)"
  by (simp add: putHandler_def parseInt_1 store1_rejected_def entry1_rejected_def
      example_defs schema_defs enum_defs handler_defs)

section \<open>Status history: what is written\<close>

lemma create_writes_one:
  assumes post: "postHandler fails now s u b = ((201, r), s')"
  shows "statusHistory s' = statusHistory s @
           [\<lparr>sh_id = statusHistorySeq s,
             sh_status = (case status b of Val v \<Rightarrow> v | Absent \<Rightarrow> ''applied'' | Null \<Rightarrow> ''applied''),
             sh_notes = Some ''Application created'',
             sh_createdAt = now, sh_applicationId = applicationSeq s\<rparr>]"
proof -
  from postHandler_created [OF post] obtain a where
    schema: "createApplicationSchema b" and
    a: "applicationData (applicationSeq s) u b = Some a" and
    s': "s' = createStatusHistory now (createApplication s a) (app_id a) (app_status a)
               ''Application created''"
    by blast
  from schema have "applicationSchema False b"
    by (simp add: createApplicationSchema_def)
  from applicationData_row [OF a this] show ?thesis
    by (simp add: s' statusHistory_createStatusHistory)
qed

lemma update_writes:
  assumes put: "putHandler fails now s u p b = ((200, r), s')"
    and p: "parseInt p = Some i"
    and e: "findApplication s i u = Some e"
  shows "statusHistory s' =
           (case status b of
              Val v \<Rightarrow>
                if v = app_status e then statusHistory s
                else statusHistory s @
                  [\<lparr>sh_id = statusHistorySeq s, sh_status = v,
                    sh_notes = Some (''Status updated to '' @ v),
                    sh_createdAt = now, sh_applicationId = i\<rparr>]
            | Absent \<Rightarrow> statusHistory s
            | Null \<Rightarrow> statusHistory s)"
proof -
  from putHandler_updated [OF put p] e obtain a where
    schema: "updateApplicationSchema b" and a: "updateData b e = Some a" and
    hist: "statusHistory s' =
              (case statusChanged b e of
                 None \<Rightarrow> statusHistory s
               | Some v \<Rightarrow> statusHistory s @
                   [\<lparr>sh_id = statusHistorySeq s, sh_status = app_status a,
                     sh_notes = Some (''Status updated to '' @ v),
                     sh_createdAt = now, sh_applicationId = app_id a\<rparr>])"
    by auto
  from schema have part: "applicationSchema True b"
    by (simp add: updateApplicationSchema_def)
  from updateData_accepted [OF part, of e] a have
    row: "app_id a = app_id e"
      "app_status a = (case status b of Val v \<Rightarrow> v | Absent \<Rightarrow> app_status e | Null \<Rightarrow> app_status e)"
    by auto
  from findApplication_Some [OF e] have ide: "app_id e = i" by simp
  show ?thesis
  proof (cases "status b")
    case (Val v)
    with schema_status [OF part] have "v \<noteq> []"
      by (simp add: enum_nonempty)
    with Val hist row ide show ?thesis
      by (simp add: statusChanged_def truthyStr_def)
  qed (use hist in \<open>simp_all add: statusChanged_def truthyStr_def\<close>)
qed

lemma enum_nonempty_types:
  "zEnum [''full-time'', ''part-time'', ''contract'', ''internship''] v \<Longrightarrow> v \<noteq> []"
  "zEnum [''remote'', ''hybrid'', ''on-site''] v \<Longrightarrow> v \<noteq> []"
  by (auto simp: zEnum_def)

text \<open>A body that passes the create schema always yields a row the store accepts.\<close>

lemma applicationData_accepted:
  assumes schema: "applicationSchema False b"
  shows "\<exists>a. applicationData n u b = Some a"
proof -
  from schema obtain cid where cid: "companyId b = Val cid"
    by (cases "companyId b") (simp_all add: applicationSchema_def)
  from schema obtain title where title: "positionTitle b = Val title"
    by (cases "positionTitle b") (simp_all add: applicationSchema_def)
  have st: "asEnum ApplicationStatus (mapOrDefault mapStatus (status b) ''applied'') \<noteq> None"
  proof (cases "status b")
    case (Val v)
    with schema_status [OF schema] have "zEnum statusValues v" by simp
    with Val show ?thesis
      by (simp add: mapOrDefault_def truthyStr_def mapStatus_enum enum_nonempty)
  qed (simp_all add: mapOrDefault_def truthyStr_def asEnum_def ApplicationStatus_def)
  have pr: "asEnum Priority (mapOrDefault mapPriority (priority b) ''medium'') \<noteq> None"
  proof (cases "priority b")
    case (Val v)
    with schema_priority [OF schema] have "zEnum [''low'', ''medium'', ''high''] v" by simp
    with Val show ?thesis
      by (simp add: mapOrDefault_def truthyStr_def mapPriority_enum enum_nonempty)
  qed (simp_all add: mapOrDefault_def truthyStr_def asEnum_def Priority_def)
  have et: "asEnum EmploymentType (mapOrDefault mapEmploymentType (employmentType b) ''full_time'') \<noteq> None"
  proof (cases "employmentType b")
    case (Val v)
    with schema_employmentType [OF schema]
    have "zEnum [''full-time'', ''part-time'', ''contract'', ''internship''] v" by simp
    with Val show ?thesis
      by (simp add: mapOrDefault_def truthyStr_def mapEmploymentType_enum enum_nonempty_types)
  qed (simp_all add: mapOrDefault_def truthyStr_def asEnum_def EmploymentType_def)
  have wt: "asEnum WorkType (mapOrDefault mapWorkType (workType b) ''remote'') \<noteq> None"
  proof (cases "workType b")
    case (Val v)
    with schema_workType [OF schema] have "zEnum [''remote'', ''hybrid'', ''on-site''] v" by simp
    with Val show ?thesis
      by (simp add: mapOrDefault_def truthyStr_def mapWorkType_enum enum_nonempty_types)
  qed (simp_all add: mapOrDefault_def truthyStr_def asEnum_def WorkType_def)
  from st pr et wt show ?thesis
    by (auto simp: applicationData_def cid title)
qed

text \<open>The create handler on an accepted request.\<close>

lemma postHandler_accepted:
  assumes schema: "createApplicationSchema b"
    and cid: "companyId b = Val cid"
    and company: "findCompany s cid u = Some c"
    and ins: "\<not> fails ApplicationCreate"
    and a: "applicationData (applicationSeq s) u b = Some a"
  shows "postHandler fails now s u b =
     (if fails StatusHistoryCreate
      then ((500, Message ''Failed to create application''), createApplication s a)
      else ((201, ApplicationReply (Some ''Application created successfully'') a None),
            createStatusHistory now (createApplication s a) (app_id a) (app_status a)
              ''Application created''))"
  unfolding postHandler_def
  by (simp only: schema cid company ins a option.case field.case if_False if_True simp_thms)

text \<open>
  C3, as stated, fails. User 1 sends a valid create for a company of theirs while the history
  insert fails: the answer is 500, Application 1 has been inserted, and no history entry has
  been written for it.
\<close>

theorem create_without_history_counterexample:
  "createApplicationSchema createBody \<and> companyId createBody = Val 7 \<and>
   findCompany store0 7 1 = Some \<lparr>co_id = 7, co_userId = 1\<rparr> \<and>
   historyFault StatusHistoryCreate \<and> \<not> historyFault ApplicationCreate \<and>
   postHandler historyFault 10 store0 1 createBody =
     ((500, Message ''Failed to create application''),
      store0\<lparr>applications := [application1], applicationSeq := 2\<rparr>) \<and>
   statusHistory (store0\<lparr>applications := [application1], applicationSeq := 2\<rparr>) = statusHistory store0 \<and>
   statusHistory store0 = []"
  by (simp add: postHandler_def historyFault_def example_defs schema_defs enum_defs handler_defs)

text \<open>
  C3, amended. When the store calls of the operation succeed: a create whose body passes
  validation and whose company belongs to the caller answers 201 and appends exactly one
  history entry, whose status is the supplied status, or \<^verbatim>\<open>applied\<close> when none was
  supplied; an update that passes validation, names an Application of the caller and passes
  the company check answers 200, leaves the history as it was when the body has no status or
  has the stored status, and appends exactly one entry (with the requested status) when the
  requested status differs from the stored one.
\<close>

theorem history_entries_when_store_answers:
  "(createApplicationSchema b \<and> companyId b = Val cid \<and> findCompany s cid u = Some c \<and>
    \<not> fails ApplicationCreate \<and> \<not> fails StatusHistoryCreate \<longrightarrow>
      fst (fst (postHandler fails now s u b)) = 201 \<and>
      (\<exists>st. statusHistory (snd (postHandler fails now s u b)) = statusHistory s @
                [\<lparr>sh_id = statusHistorySeq s, sh_status = st, sh_notes = Some ''Application created'',
                  sh_createdAt = now, sh_applicationId = applicationSeq s\<rparr>] \<and>
            (status b = Absent \<longrightarrow> st = ''applied'') \<and>
            (\<forall>v. status b = Val v \<longrightarrow> st = v))) \<and>
   (parseInt p = Some i \<and> updateApplicationSchema b \<and> findApplication s i u = Some e \<and>
    (\<forall>k. truthyNum (companyId b) = Some k \<longrightarrow> findCompany s k u \<noteq> None) \<and>
    \<not> fails ApplicationUpdate \<and> \<not> fails StatusHistoryCreate \<longrightarrow>
      fst (fst (putHandler fails now s u p b)) = 200 \<and>
      (status b = Absent \<or> status b = Val (app_status e) \<longrightarrow>
         statusHistory (snd (putHandler fails now s u p b)) = statusHistory s) \<and>
      (\<forall>v. status b = Val v \<and> v \<noteq> app_status e \<longrightarrow>
           statusHistory (snd (putHandler fails now s u p b)) = statusHistory s @
             [\<lparr>sh_id = statusHistorySeq s, sh_status = v,
               sh_notes = Some (''Status updated to '' @ v),
               sh_createdAt = now, sh_applicationId = i\<rparr>]))"
proof (rule conjI; rule impI; elim conjE)
  assume schema: "createApplicationSchema b" and cid: "companyId b = Val cid"
    and company: "findCompany s cid u = Some c"
    and ok: "\<not> fails ApplicationCreate" "\<not> fails StatusHistoryCreate"
  from schema have "applicationSchema False b"
    by (simp add: createApplicationSchema_def)
  from applicationData_accepted [OF this] obtain a where
    a: "applicationData (applicationSeq s) u b = Some a"
    by blast
  let ?r = "ApplicationReply (Some ''Application created successfully'') a None"
  let ?s' = "createStatusHistory now (createApplication s a) (app_id a) (app_status a)
               ''Application created''"
  from postHandler_accepted [where fails = fails and now = now, OF schema cid company ok(1) a] ok(2)
  have run: "postHandler fails now s u b = ((201, ?r), ?s')"
    by simp
  note one = create_writes_one [OF run]
  have "\<exists>st. statusHistory ?s' = statusHistory s @
                [\<lparr>sh_id = statusHistorySeq s, sh_status = st, sh_notes = Some ''Application created'',
                  sh_createdAt = now, sh_applicationId = applicationSeq s\<rparr>] \<and>
            (status b = Absent \<longrightarrow> st = ''applied'') \<and>
            (\<forall>v. status b = Val v \<longrightarrow> st = v)"
    using one
    by (intro exI [of _ "case status b of Val v \<Rightarrow> v | Absent \<Rightarrow> ''applied'' | Null \<Rightarrow> ''applied''"])
      simp
  then show "fst (fst (postHandler fails now s u b)) = 201 \<and>
      (\<exists>st. statusHistory (snd (postHandler fails now s u b)) = statusHistory s @
                [\<lparr>sh_id = statusHistorySeq s, sh_status = st, sh_notes = Some ''Application created'',
                  sh_createdAt = now, sh_applicationId = applicationSeq s\<rparr>] \<and>
            (status b = Absent \<longrightarrow> st = ''applied'') \<and>
            (\<forall>v. status b = Val v \<longrightarrow> st = v))"
    by (simp add: run)
next
  assume p: "parseInt p = Some i" and schema: "updateApplicationSchema b"
    and e: "findApplication s i u = Some e"
    and company: "\<forall>k. truthyNum (companyId b) = Some k \<longrightarrow> findCompany s k u \<noteq> None"
    and ok: "\<not> fails ApplicationUpdate" "\<not> fails StatusHistoryCreate"
  from schema have part: "applicationSchema True b"
    by (simp add: updateApplicationSchema_def)
  from updateData_accepted [OF part, of e] obtain a where a: "updateData b e = Some a"
    by blast
  from putHandler_accepted [where fails = fails and now = now, OF p schema e company ok(1) a] ok(2)
  have "\<exists>r s'. putHandler fails now s u p b = ((200, r), s')"
    by (simp add: Let_def split: option.splits)
  then obtain r s' where run: "putHandler fails now s u p b = ((200, r), s')"
    by blast
  note w = update_writes [OF run p e]
  have zero: "status b = Absent \<or> status b = Val (app_status e) \<longrightarrow> statusHistory s' = statusHistory s"
    using w by auto
  have one: "\<forall>v. status b = Val v \<and> v \<noteq> app_status e \<longrightarrow>
           statusHistory s' = statusHistory s @
             [\<lparr>sh_id = statusHistorySeq s, sh_status = v,
               sh_notes = Some (''Status updated to '' @ v),
               sh_createdAt = now, sh_applicationId = i\<rparr>]"
    using w by simp
  from zero one show "fst (fst (putHandler fails now s u p b)) = 200 \<and>
      (status b = Absent \<or> status b = Val (app_status e) \<longrightarrow>
         statusHistory (snd (putHandler fails now s u p b)) = statusHistory s) \<and>
      (\<forall>v. status b = Val v \<and> v \<noteq> app_status e \<longrightarrow>
           statusHistory (snd (putHandler fails now s u p b)) = statusHistory s @
             [\<lparr>sh_id = statusHistorySeq s, sh_status = v,
               sh_notes = Some (''Status updated to '' @ v),
               sh_createdAt = now, sh_applicationId = i\<rparr>])"
    by (simp add: run)
qed

text \<open>
  C3 amended, on the example run with no fault: a create with the status left out writes
  \<open>entry1\<close> (\<^verbatim>\<open>applied\<close>); the update to \<^verbatim>\<open>offer\<close> writes \<open>entry2\<close>; the same
  update again answers 200 and writes nothing.
\<close>

theorem history_entries_when_store_answers_witness:
  "createApplicationSchema createBody \<and> companyId createBody = Val 7 \<and>
   findCompany store0 7 1 = Some \<lparr>co_id = 7, co_userId = 1\<rparr> \<and>
   \<not> noFault ApplicationCreate \<and> \<not> noFault ApplicationUpdate \<and> \<not> noFault StatusHistoryCreate \<and>
   status createBody = Absent \<and>
   postHandler noFault 10 store0 1 createBody =
     ((201, ApplicationReply (Some ''Application created successfully'') application1 None), store1) \<and>
   statusHistory store0 = [] \<and> statusHistory store1 = [entry1] \<and>
   parseInt ''1'' = Some 1 \<and> updateApplicationSchema offerBody \<and>
   truthyNum (companyId offerBody) = None \<and>
   findApplication store1 1 1 = Some application1 \<and>
   status offerBody = Val ''offer'' \<and> ''offer'' \<noteq> app_status application1 \<and>
   putHandler noFault 20 store1 1 ''1'' offerBody =
     ((200, ApplicationReply (Some ''Application updated successfully'')
              (application1\<lparr>app_status := ''offer''\<rparr>) (Some [entry1])), store2) \<and>
   statusHistory store2 = [entry1, entry2] \<and>
   findApplication store2 1 1 = Some (application1\<lparr>app_status := ''offer''\<rparr>) \<and>
   status offerBody = Val (app_status (application1\<lparr>app_status := ''offer''\<rparr>)) \<and>
   fst (fst (putHandler noFault 30 store2 1 ''1'' offerBody)) = 200 \<and>
   statusHistory (snd (putHandler noFault 30 store2 1 ''1'' offerBody)) = statusHistory store2"
proof -
  note T = history_entries_when_store_answers
  have g: "createApplicationSchema createBody" "updateApplicationSchema offerBody"
    by (simp_all add: example_defs schema_defs)
  have cb: "companyId createBody = Val 7" "status createBody = Absent"
    by (simp_all add: example_defs)
  have co: "findCompany store0 7 1 = Some \<lparr>co_id = 7, co_userId = 1\<rparr>"
    by (simp add: findCompany_def store0_def)
  have nf: "\<not> noFault ApplicationCreate" "\<not> noFault ApplicationUpdate" "\<not> noFault StatusHistoryCreate"
    by (simp_all add: noFault_def)
  have s0: "statusHistory store0 = []" "statusHistorySeq store0 = 1" "applicationSeq store0 = 1"
    by (simp_all add: store0_def)
  from T [where fails = noFault and now = 10, THEN conjunct1, rule_format, of createBody 7 store0 1]
    g(1) cb co nf
  have "statusHistory (snd (postHandler noFault 10 store0 1 createBody)) = statusHistory store0 @
          [\<lparr>sh_id = statusHistorySeq store0, sh_status = ''applied'',
            sh_notes = Some ''Application created'', sh_createdAt = 10,
            sh_applicationId = applicationSeq store0\<rparr>]"
    by auto
  then have c1: "statusHistory store1 = [entry1]"
    by (simp add: example_post s0 entry1_def)
  have tn: "truthyNum (companyId offerBody) = None"
    by (simp add: truthyNum_def example_defs)
  then have ck1: "\<forall>k. truthyNum (companyId offerBody) = Some k \<longrightarrow> findCompany store1 k 1 \<noteq> None"
    and ck2: "\<forall>k. truthyNum (companyId offerBody) = Some k \<longrightarrow> findCompany store2 k 1 \<noteq> None"
    by simp_all
  have f1: "findApplication store1 1 1 = Some application1"
    by (simp add: findApplication_def example_defs)
  have b1: "status offerBody = Val ''offer''" by (simp add: example_defs)
  have n1: "''offer'' \<noteq> app_status application1" by (simp add: example_defs)
  have q1: "statusHistorySeq store1 = 2" by (simp add: store1_def)
  note U1 = T [where fails = noFault and now = 20 and s = store1 and u = 1 and p = "''1''"
      and b = offerBody and i = 1 and e = application1, THEN conjunct2, rule_format,
      OF conjI [OF parseInt_1 conjI [OF g(2) conjI [OF f1 conjI [OF ck1 conjI [OF nf(2) nf(3)]]]]]]
  from U1 b1 n1
  have "statusHistory (snd (putHandler noFault 20 store1 1 ''1'' offerBody)) = statusHistory store1 @
          [\<lparr>sh_id = statusHistorySeq store1, sh_status = ''offer'',
            sh_notes = Some (''Status updated to '' @ ''offer''), sh_createdAt = 20,
            sh_applicationId = 1\<rparr>]"
    by simp
  then have c2: "statusHistory store2 = [entry1, entry2]"
    by (simp add: example_put c1 q1 entry2_def)
  have f2: "findApplication store2 1 1 = Some (application1\<lparr>app_status := ''offer''\<rparr>)"
    by (simp add: findApplication_def example_defs)
  have b2: "status offerBody = Val (app_status (application1\<lparr>app_status := ''offer''\<rparr>))"
    by (simp add: example_defs)
  note U2 = T [where fails = noFault and now = 30 and s = store2 and u = 1 and p = "''1''"
      and b = offerBody and i = 1 and e = "application1\<lparr>app_status := ''offer''\<rparr>",
      THEN conjunct2, rule_format,
      OF conjI [OF parseInt_1 conjI [OF g(2) conjI [OF f2 conjI [OF ck2 conjI [OF nf(2) nf(3)]]]]]]
  from U2 b2
  have c3: "fst (fst (putHandler noFault 30 store2 1 ''1'' offerBody)) = 200"
    and c4: "statusHistory (snd (putHandler noFault 30 store2 1 ''1'' offerBody)) = statusHistory store2"
    by simp_all
  from g(1) cb(1) co nf cb(2) example_post s0(1) c1 parseInt_1 g(2) tn f1 b1 n1 example_put c2 f2 b2 c3 c4
  show ?thesis by (intro conjI)
qed

text \<open>
  C1 on the code. A StatusHistory row has the columns \<^verbatim>\<open>id\<close>, \<^verbatim>\<open>status\<close>,
  \<^verbatim>\<open>notes\<close>, \<^verbatim>\<open>createdAt\<close>, \<^verbatim>\<open>applicationId\<close> and no other. Application 1 is
  created once with the status left out (\<^verbatim>\<open>applied\<close>) and once as \<^verbatim>\<open>rejected\<close>;
  the update to \<^verbatim>\<open>offer\<close> appends the same entry in both runs. The entry does not
  record the status held before the update, and neither it nor the creation entry has a
  \<^verbatim>\<open>previousStatus\<close> key in its JSON.
\<close>

theorem previousStatus_not_recorded:
  "snd (postHandler noFault 10 store0 1 createBody) = store1 \<and>
   snd (postHandler noFault 10 store0 1 rejectedBody) = store1_rejected \<and>
   map app_status (applications store1) = [''applied''] \<and>
   map app_status (applications store1_rejected) = [''rejected''] \<and>
   statusHistory (snd (putHandler noFault 20 store1 1 ''1'' offerBody)) = [entry1, entry2] \<and>
   statusHistory (snd (putHandler noFault 20 store1_rejected 1 ''1'' offerBody)) =
     [entry1_rejected, entry2] \<and>
   statusHistoryJson entry1 =
     [(''id'', JNum 1), (''status'', JStr ''applied''), (''notes'', JStr ''Application created''),
      (''createdAt'', JNum 10), (''applicationId'', JNum 1)] \<and>
   statusHistoryJson entry2 =
     [(''id'', JNum 2), (''status'', JStr ''offer''), (''notes'', JStr ''Status updated to offer''),
      (''createdAt'', JNum 20), (''applicationId'', JNum 1)] \<and>
   map_of (statusHistoryJson entry1) ''previousStatus'' = None \<and>
   map_of (statusHistoryJson entry2) ''previousStatus'' = None"
  by (simp add: example_post example_post_rejected example_put example_put_rejected)
    (simp add: example_defs store1_rejected_def statusHistoryJson_def)

section \<open>Status write and history append\<close>

text \<open>
  C2, as stated, fails. With the history insert failing, the update of Application 1 to
  \<^verbatim>\<open>offer\<close> answers 500, the stored status has changed from \<^verbatim>\<open>applied\<close> to
  \<^verbatim>\<open>offer\<close>, and the history is what it was.
\<close>

theorem update_not_atomic_counterexample:
  "historyFault StatusHistoryCreate \<and>
   map app_status (applications store1) = [''applied''] \<and>
   fst (fst (putHandler historyFault 20 store1 1 ''1'' offerBody)) = 500 \<and>
   map app_status (applications (snd (putHandler historyFault 20 store1 1 ''1'' offerBody))) = [''offer''] \<and>
   statusHistory (snd (putHandler historyFault 20 store1 1 ''1'' offerBody)) = statusHistory store1"
  by (simp add: example_put_fault) (simp add: example_defs historyFault_def)

text \<open>
  C2, amended. The status write and the history append are two store calls made in that
  order. For an update that passes validation, names an Application of the caller, passes the
  company check, asks for a status other than the stored one, and whose Application write
  succeeds: the new status is stored; if the history append succeeds the answer is 200 and
  the entry is appended; if the history append fails the answer is 500, the history is
  unchanged, and the new status stays stored.
\<close>

theorem status_write_then_history_append:
  assumes run: "putHandler fails now s u p b = (resp, s')"
    and p: "parseInt p = Some i"
    and schema: "updateApplicationSchema b"
    and e: "findApplication s i u = Some e"
    and company: "\<forall>cid. truthyNum (companyId b) = Some cid \<longrightarrow> findCompany s cid u \<noteq> None"
    and upd: "\<not> fails ApplicationUpdate"
    and v: "status b = Val v" "v \<noteq> app_status e"
  shows "(\<exists>e'. findApplication s' i u = Some e' \<and> app_status e' = v) \<and>
         (fails StatusHistoryCreate \<longrightarrow> fst resp = 500 \<and> statusHistory s' = statusHistory s) \<and>
         (\<not> fails StatusHistoryCreate \<longrightarrow> fst resp = 200 \<and>
            statusHistory s' = statusHistory s @
              [\<lparr>sh_id = statusHistorySeq s, sh_status = v,
                sh_notes = Some (''Status updated to '' @ v),
                sh_createdAt = now, sh_applicationId = i\<rparr>])"
proof -
  from schema have part: "applicationSchema True b"
    by (simp add: updateApplicationSchema_def)
  from updateData_accepted [OF part, of e] v(1) obtain a where
    a: "updateData b e = Some a" and ida: "app_id a = app_id e" and sta: "app_status a = v"
    by auto
  from findApplication_Some [OF e] have ide: "app_id e = i" by simp
  let ?f = "\<lambda>r. case updateData b r of None \<Rightarrow> r | Some r' \<Rightarrow> r'"
  let ?s1 = "updateApplication s i ?f"
  have keys: "\<And>r. app_id (?f r) = app_id r \<and> app_userId (?f r) = app_userId r"
    using updateData_keys by (simp split: option.splits)
  have found: "findApplication ?s1 i u = Some a"
    using findApplication_updateApplication [of ?f s i i u, OF keys] e a ide by simp
  from schema_status [OF part] v(1) have "v \<noteq> []"
    by (simp add: enum_nonempty)
  with v have ch: "statusChanged b e = Some v"
    by (simp add: statusChanged_def truthyStr_def)
  note R = putHandler_accepted [where fails = fails and now = now, OF p schema e company upd a,
      unfolded run Let_def ch option.case]
  show ?thesis
  proof (cases "fails StatusHistoryCreate")
    case True
    with R have "resp = (500, Message ''Failed to update application'')" "s' = ?s1"
      by simp_all
    with True found sta show ?thesis by simp
  next
    case False
    with R have "fst resp = 200"
      "s' = createStatusHistory now ?s1 (app_id a) (app_status a) (''Status updated to '' @ v)"
      by simp_all
    with False found sta ida ide show ?thesis
      by (simp add: statusHistory_createStatusHistory)
  qed
qed

text \<open>
  C2 amended, on the update of Application 1 to \<^verbatim>\<open>offer\<close>: once with the history insert
  failing (the status is written, the history is not) and once with no fault (both are).
\<close>

theorem status_write_then_history_append_witness:
  "putHandler historyFault 20 store1 1 ''1'' offerBody =
     ((500, Message ''Failed to update application''), store1_offer) \<and>
   putHandler noFault 20 store1 1 ''1'' offerBody =
     ((200, ApplicationReply (Some ''Application updated successfully'')
              (application1\<lparr>app_status := ''offer''\<rparr>) (Some [entry1])), store2) \<and>
   parseInt ''1'' = Some 1 \<and> updateApplicationSchema offerBody \<and>
   findApplication store1 1 1 = Some application1 \<and>
   truthyNum (companyId offerBody) = None \<and>
   \<not> historyFault ApplicationUpdate \<and> \<not> noFault ApplicationUpdate \<and>
   status offerBody = Val ''offer'' \<and> ''offer'' \<noteq> app_status application1 \<and>
   historyFault StatusHistoryCreate \<and> \<not> noFault StatusHistoryCreate \<and>
   (\<exists>e'. findApplication store1_offer 1 1 = Some e' \<and> app_status e' = ''offer'') \<and>
   statusHistory store1_offer = statusHistory store1 \<and>
   (\<exists>e'. findApplication store2 1 1 = Some e' \<and> app_status e' = ''offer'') \<and>
   statusHistory store2 = statusHistory store1 @
     [\<lparr>sh_id = statusHistorySeq store1, sh_status = ''offer'',
       sh_notes = Some (''Status updated to '' @ ''offer''),
       sh_createdAt = 20, sh_applicationId = 1\<rparr>]"
proof -
  have bad: "putHandler historyFault 20 store1 1 ''1'' offerBody =
     ((500, Message ''Failed to update application''), store1_offer)"
    by (simp add: example_put_fault store1_offer_def)
  have h1: "parseInt ''1'' = Some 1" by (rule parseInt_1)
  have h2: "updateApplicationSchema offerBody"
    by (simp add: example_defs schema_defs)
  have h3: "findApplication store1 1 1 = Some application1"
    by (simp add: findApplication_def example_defs)
  have h4': "truthyNum (companyId offerBody) = None"
    by (simp add: truthyNum_def example_defs)
  then have h4: "\<forall>cid. truthyNum (companyId offerBody) = Some cid \<longrightarrow> findCompany store1 cid 1 \<noteq> None"
    by simp
  have h5: "\<not> historyFault ApplicationUpdate" "\<not> noFault ApplicationUpdate"
    by (simp_all add: historyFault_def noFault_def)
  have h6: "status offerBody = Val ''offer''" by (simp add: example_defs)
  have h7: "''offer'' \<noteq> app_status application1" by (simp add: example_defs)
  have h8: "historyFault StatusHistoryCreate" "\<not> noFault StatusHistoryCreate"
    by (simp_all add: historyFault_def noFault_def)
  note F = status_write_then_history_append [where fails = historyFault,
      OF bad h1 h2 h3 h4 h5(1) h6 h7]
  note G = status_write_then_history_append [where fails = noFault,
      OF example_put h1 h2 h3 h4 h5(2) h6 h7]
  from F h8(1) have c1: "\<exists>e'. findApplication store1_offer 1 1 = Some e' \<and> app_status e' = ''offer''"
    and c2: "statusHistory store1_offer = statusHistory store1"
    by simp_all
  from G h8(2) have c3: "\<exists>e'. findApplication store2 1 1 = Some e' \<and> app_status e' = ''offer''"
    and c4: "statusHistory store2 = statusHistory store1 @
     [\<lparr>sh_id = statusHistorySeq store1, sh_status = ''offer'',
       sh_notes = Some (''Status updated to '' @ ''offer''),
       sh_createdAt = 20, sh_applicationId = 1\<rparr>]"
    by simp_all
  from bad example_put h1 h2 h3 h4' h5 h6 h7 h8 c1 c2 c3 c4 show ?thesis
    by (intro conjI)
qed

section \<open>Priority \<^verbatim>\<open>urgent\<close>\<close>

text \<open>
  C6 on the code. \<^verbatim>\<open>urgent\<close> is a value of the store's \<^verbatim>\<open>Priority\<close> enum, yet a create
  and an update that ask for it are answered 400 \<^verbatim>\<open>Validation failed\<close> and store nothing;
  the same create asking for \<^verbatim>\<open>high\<close> is answered 201.
\<close>

theorem urgent_priority_rejected:
  "''urgent'' \<in> set Priority \<and>
   postHandler noFault 10 store0 1 urgentBody = ((400, Message ''Validation failed''), store0) \<and>
   putHandler noFault 20 store1 1 ''1'' urgentBody = ((400, Message ''Validation failed''), store1) \<and>
   fst (fst (postHandler noFault 10 store0 1 (urgentBody\<lparr>priority := Val ''high''\<rparr>))) = 201"
  by (simp add: postHandler_def putHandler_def parseInt_1 urgentBody_def
      example_defs schema_defs enum_defs handler_defs)

section \<open>Applications of another user\<close>







section \<open>Deleting an Application\<close>

lemma deleteHandler_deleted:
  assumes "deleteHandler fails s u p = ((200, r), s')" and "parseInt p = Some i"
  shows "(\<exists>e. findApplication s i u = Some e) \<and> s' = deleteApplications s (\<lambda>a. app_id a = i)"
  using assms by (simp add: deleteHandler_def split: option.splits if_splits)

lemma gone_single:
  assumes "e \<in> set xs" and "app_id e = i"
  shows "set (map app_id (filter (\<lambda>a. app_id a = i) xs)) = {i}"
  using assms by auto

text \<open>
  C8. After a delete that answers 200 for the Application of id \<open>i\<close>, no Application row has
  that id and no row of StatusHistory, Interview, Task or Document refers to it.
\<close>

theorem delete_cascades:
  assumes "deleteHandler fails s u p = ((200, r), s')" and "parseInt p = Some i"
  shows "(\<forall>a\<in>set (applications s'). app_id a \<noteq> i) \<and>
         (\<forall>h\<in>set (statusHistory s'). sh_applicationId h \<noteq> i) \<and>
         (\<forall>v\<in>set (interviews s'). iv_applicationId v \<noteq> i) \<and>
         (\<forall>t\<in>set (tasks s'). tk_applicationId t \<noteq> Some i) \<and>
         (\<forall>d\<in>set (documents s'). doc_applicationId d \<noteq> Some i)"
proof -
  from deleteHandler_deleted [OF assms] obtain e where
    e: "findApplication s i u = Some e" and s': "s' = deleteApplications s (\<lambda>a. app_id a = i)"
    by blast
  from findApplication_Some [OF e] have "e \<in> set (applications s)" "app_id e = i"
    by simp_all
  then have gone: "set (map app_id (filter (\<lambda>a. app_id a = i) (applications s))) = {i}"
    by (rule gone_single)
  show ?thesis
    unfolding s' deleteApplications_def Let_def
    by (auto simp: gone simp del: set_map)
qed

text \<open>
  C8 on store 3, where Application 1 has two history entries, an interview, a task and a
  document: the delete answers 200 and leaves only the task that referred to no Application.
\<close>

theorem delete_cascades_witness:
  "deleteHandler noFault store3 1 ''1'' =
     ((200, Message ''Application deleted successfully''), store3_deleted) \<and>
   parseInt ''1'' = Some 1 \<and>
   map sh_applicationId (statusHistory store3) = [1, 1] \<and>
   map iv_applicationId (interviews store3) = [1] \<and>
   map tk_applicationId (tasks store3) = [Some 1, None] \<and>
   map doc_applicationId (documents store3) = [Some 1] \<and>
   1 \<notin> app_id ` set (applications store3_deleted) \<and>
   1 \<notin> sh_applicationId ` set (statusHistory store3_deleted) \<and>
   1 \<notin> iv_applicationId ` set (interviews store3_deleted) \<and>
   Some 1 \<notin> tk_applicationId ` set (tasks store3_deleted) \<and>
   Some 1 \<notin> doc_applicationId ` set (documents store3_deleted)"
proof -
  have run: "deleteHandler noFault store3 1 ''1'' =
     ((200, Message ''Application deleted successfully''), store3_deleted)"
    by (simp add: deleteHandler_def parseInt_1 findApplication_def deleteApplications_def
        store3_def store3_deleted_def example_defs)
  have before: "map sh_applicationId (statusHistory store3) = [1, 1]"
    "map iv_applicationId (interviews store3) = [1]"
    "map tk_applicationId (tasks store3) = [Some 1, None]"
    "map doc_applicationId (documents store3) = [Some 1]"
    by (simp_all add: store3_def example_defs)
  from delete_cascades [OF run parseInt_1] have after:
    "1 \<notin> app_id ` set (applications store3_deleted)"
    "1 \<notin> sh_applicationId ` set (statusHistory store3_deleted)"
    "1 \<notin> iv_applicationId ` set (interviews store3_deleted)"
    "Some 1 \<notin> tk_applicationId ` set (tasks store3_deleted)"
    "Some 1 \<notin> doc_applicationId ` set (documents store3_deleted)"
    by auto
  from run parseInt_1 before after show ?thesis by (intro conjI)
qed

section \<open>Status history: append only, newest first\<close>

text \<open>
  C9, as stated, fails: deleting Application 1 deletes its two history entries with it.
\<close>

theorem history_entry_deleted_counterexample:
  "statusHistory store2 = [entry1, entry2] \<and>
   perform noFault 30 store2
     (Applications \<lparr>req_method = DELETE, req_path = [''1''], req_user = 1, req_body = emptyBody\<rparr>)
     = Handled (200, Message ''Application deleted successfully'')
         (store2\<lparr>applications := [], statusHistory := []\<rparr>)"
  by (simp add: perform_def serve_def routes_def paramsId_def deleteHandler_def parseInt_1 findApplication_def
      deleteApplications_def example_defs)

lemma prefix_historyOf_append:
  assumes "statusHistory s' = statusHistory s @ xs"
  shows "prefix (historyOf s i) (historyOf s' i)"
  by (simp add: historyOf_def assms)

lemma historyDesc_sorted:
  "sorted_wrt (\<lambda>x y. sh_createdAt y \<le> sh_createdAt x) (historyDesc s i)"
proof -
  have "sorted (map sh_createdAt (sort_key sh_createdAt (historyOf s i)))"
    by (rule sorted_sort_key)
  then have "sorted_wrt (\<lambda>x y. sh_createdAt x \<le> sh_createdAt y) (sort_key sh_createdAt (historyOf s i))"
    by (simp add: sorted_map)
  then show ?thesis
    by (simp add: historyDesc_def sorted_wrt_rev)
qed

lemma getHandler_history:
  assumes "getHandler s u p = (r, s')"
  shows "s' = s \<and> (\<forall>m a h. r = (200, ApplicationReply m a (Some h)) \<longrightarrow> (\<exists>j. h = historyDesc s j))"
  using assms by (auto simp: getHandler_def split: option.splits)

lemma postHandler_history:
  assumes "postHandler fails now s u b = (r, s')"
  shows "(\<exists>xs. statusHistory s' = statusHistory s @ xs) \<and>
         (\<forall>m a h. r \<noteq> (200, ApplicationReply m a (Some h)))"
  using assms
  by (auto simp: postHandler_def statusHistory_createStatusHistory
      split: if_splits field.splits option.splits)

lemma putHandler_history:
  assumes "putHandler fails now s u p b = (r, s')"
  shows "(\<exists>xs. statusHistory s' = statusHistory s @ xs) \<and>
         (\<forall>m a h. r = (200, ApplicationReply m a (Some h)) \<longrightarrow> (\<exists>t j. h = historyDesc t j))"
  using assms
  by (auto simp: putHandler_def Let_def statusHistory_createStatusHistory
      split: if_splits option.splits)

lemma deleteHandler_history:
  assumes "deleteHandler fails s u p = (r, s')"
  shows "(s' = s \<or> (\<exists>i. s' = deleteApplications s (\<lambda>a. app_id a = i))) \<and>
         (\<forall>m a h. r \<noteq> (200, ApplicationReply m a (Some h)))"
  using assms
  by (auto simp: deleteHandler_def split: if_splits option.splits)

lemma historyOf_deleteApplications:
  assumes "\<exists>a\<in>set (applications (deleteApplications s (\<lambda>a. app_id a = i0))). app_id a = i"
  shows "historyOf (deleteApplications s (\<lambda>a. app_id a = i0)) i = historyOf s i"
proof -
  from assms have "i \<noteq> i0"
    by (auto simp: deleteApplications_def Let_def)
  then have "\<And>h. sh_applicationId h = i \<Longrightarrow>
      sh_applicationId h \<notin> set (map app_id (filter (\<lambda>a. app_id a = i0) (applications s)))"
    by auto
  then show ?thesis
    unfolding historyOf_def deleteApplications_def Let_def
    by (auto intro: filter_cong simp del: set_map)
qed

lemma deleteCompanyHandler_history:
  assumes "deleteCompanyHandler fails s u p = (r, s')"
  shows "statusHistory s' = statusHistory s \<and>
         (\<forall>m a h. r \<noteq> (200, ApplicationReply m a (Some h)))"
proof -
  have "statusHistory (deleteCompany s i) = statusHistory s"
    if "filter (\<lambda>a. app_companyId a = i) (applications s) = []" for i
    using that by (simp add: deleteCompany_def deleteApplications_def)
  moreover have "co_id c = i" if "findCompany s i u = Some c" for c i
    using that by (auto simp: findCompany_def find_Some_iff)
  ultimately show ?thesis
    using assms
    by (auto simp: deleteCompanyHandler_def Let_def split: option.splits if_splits)
qed

lemma handled_history:
  assumes "(\<exists>xs. statusHistory s' = statusHistory s @ xs) \<or> s' = s \<or>
           (\<exists>i0. s' = deleteApplications s (\<lambda>a. app_id a = i0))"
  shows "\<forall>i. (\<exists>a\<in>set (applications s'). app_id a = i) \<longrightarrow> prefix (historyOf s i) (historyOf s' i)"
proof (intro allI impI)
  fix i assume live: "\<exists>a\<in>set (applications s'). app_id a = i"
  from assms consider xs where "statusHistory s' = statusHistory s @ xs" | "s' = s"
    | i0 where "s' = deleteApplications s (\<lambda>a. app_id a = i0)"
    by blast
  then show "prefix (historyOf s i) (historyOf s' i)"
  proof cases
    case 1
    then show ?thesis by (rule prefix_historyOf_append)
  next
    case 2
    then show ?thesis by simp
  next
    case 3
    with live show ?thesis by (simp add: historyOf_deleteApplications)
  qed
qed

text \<open>
  C9, amended. Whatever request the applications router handles, and whenever a company is
  deleted, for every Application that exists afterwards its history entries from before are
  all still there, unchanged and in the same order, with any new entry after them: entries
  are never updated, and are deleted only together with their Application. The history list
  sent with an Application is ordered by creation time, newest first.
\<close>

theorem history_append_only:
  assumes "perform fails now s operation = Handled r s'"
  shows "(\<forall>i. (\<exists>a\<in>set (applications s'). app_id a = i) \<longrightarrow>
              prefix (historyOf s i) (historyOf s' i)) \<and>
         (\<forall>m a h. r = (200, ApplicationReply m a (Some h)) \<longrightarrow>
              sorted_wrt (\<lambda>x y. sh_createdAt y \<le> sh_createdAt x) h)"
proof -
  have "((\<exists>xs. statusHistory s' = statusHistory s @ xs) \<or> s' = s \<or>
           (\<exists>i0. s' = deleteApplications s (\<lambda>a. app_id a = i0))) \<and>
        (\<forall>m a h. r = (200, ApplicationReply m a (Some h)) \<longrightarrow> (\<exists>t j. h = historyDesc t j))"
  proof (cases operation)
    case (DeleteCompany u p)
    with assms have "deleteCompanyHandler fails s u p = (r, s')"
      by (simp add: perform_def split: prod.splits)
    from deleteCompanyHandler_history [OF this] show ?thesis by simp
  next
    case (Applications req)
    with assms have served: "serve fails now s req = Handled r s'"
      by (simp add: perform_def)
    then obtain hd ps where m: "matchRoute routes (req_method req) (req_path req) = Some (hd, ps)"
      by (auto simp: serve_def split: option.splits)
    from matchRoute_never_bulk [of "req_method req" "req_path req"] m
    have nb: "hd \<noteq> BulkDeleteApplications" by simp
    show ?thesis
    proof (cases hd)
      case GetApplications
      with served m show ?thesis by (simp add: serve_def)
    next
      case GetApplication
      with served m have "getHandler s (req_user req) (paramsId ps) = (r, s')"
        by (simp add: serve_def split: prod.splits)
      from getHandler_history [OF this] show ?thesis by blast
    next
      case CreateApplication
      with served m have "postHandler fails now s (req_user req) (req_body req) = (r, s')"
        by (simp add: serve_def split: prod.splits)
      from postHandler_history [OF this] show ?thesis by blast
    next
      case UpdateApplication
      with served m have "putHandler fails now s (req_user req) (paramsId ps) (req_body req) = (r, s')"
        by (simp add: serve_def split: prod.splits)
      from putHandler_history [OF this] show ?thesis by blast
    next
      case DeleteApplication
      with served m have "deleteHandler fails s (req_user req) (paramsId ps) = (r, s')"
        by (simp add: serve_def split: prod.splits)
      from deleteHandler_history [OF this] show ?thesis by blast
    next
      case BulkDeleteApplications
      with nb show ?thesis by simp
    qed
  qed
  then show ?thesis
    using handled_history [of s' s] historyDesc_sorted by blast
qed

text \<open>
  C9 amended, on the example run: the update to \<^verbatim>\<open>offer\<close> extends the history of
  Application 1 from \<open>[entry1]\<close> to \<open>[entry1, entry2]\<close>, a fetch afterwards lists the
  newer entry first, and deleting company 7 is refused while Application 1 is there.
\<close>

theorem history_append_only_witness:
  "perform noFault 20 store1
     (Applications \<lparr>req_method = PUT, req_path = [''1''], req_user = 1, req_body = offerBody\<rparr>)
     = Handled (200, ApplicationReply (Some ''Application updated successfully'')
                       (application1\<lparr>app_status := ''offer''\<rparr>) (Some [entry1])) store2 \<and>
   perform noFault 30 store2
     (Applications \<lparr>req_method = GET, req_path = [''1''], req_user = 1, req_body = emptyBody\<rparr>)
     = Handled (200, ApplicationReply None (application1\<lparr>app_status := ''offer''\<rparr>)
                       (Some [entry2, entry1])) store2 \<and>
   perform noFault 30 store2 (DeleteCompany 1 ''7'') = Handled (400, CompanyInUse 1) store2 \<and>
   (\<exists>a\<in>set (applications store2). app_id a = 1) \<and>
   historyOf store1 1 = [entry1] \<and> historyOf store2 1 = [entry1, entry2] \<and>
   prefix (historyOf store1 1) (historyOf store2 1) \<and>
   prefix (historyOf store2 1) (historyOf store2 1) \<and>
   sorted_wrt (\<lambda>x y. sh_createdAt y \<le> sh_createdAt x) [entry2, entry1]"
proof -
  have del: "perform noFault 30 store2 (DeleteCompany 1 ''7'') = Handled (400, CompanyInUse 1) store2"
    by (simp add: perform_def deleteCompanyHandler_def parseInt_def digitOf_def isWhiteSpace_def
        findCompany_def example_defs)
  have put: "perform noFault 20 store1
     (Applications \<lparr>req_method = PUT, req_path = [''1''], req_user = 1, req_body = offerBody\<rparr>)
     = Handled (200, ApplicationReply (Some ''Application updated successfully'')
                       (application1\<lparr>app_status := ''offer''\<rparr>) (Some [entry1])) store2"
    by (simp add: perform_def serve_def routes_def paramsId_def example_put)
  have get: "perform noFault 30 store2
     (Applications \<lparr>req_method = GET, req_path = [''1''], req_user = 1, req_body = emptyBody\<rparr>)
     = Handled (200, ApplicationReply None (application1\<lparr>app_status := ''offer''\<rparr>)
                       (Some [entry2, entry1])) store2"
    by (simp add: perform_def serve_def routes_def paramsId_def getHandler_def parseInt_1 findApplication_def
        historyDesc_def historyOf_def example_defs)
  have live: "\<exists>a\<in>set (applications store2). app_id a = 1"
    by (simp add: example_defs)
  have h: "historyOf store1 1 = [entry1]" "historyOf store2 1 = [entry1, entry2]"
    by (simp_all add: historyOf_def example_defs)
  have c1: "prefix (historyOf store1 1) (historyOf store2 1)"
    by (rule history_append_only [OF put, THEN conjunct1, rule_format, OF live])
  have c2: "sorted_wrt (\<lambda>x y. sh_createdAt y \<le> sh_createdAt x) [entry2, entry1]"
    by (rule history_append_only [OF get, THEN conjunct2, rule_format, OF refl])
  have c3: "prefix (historyOf store2 1) (historyOf store2 1)"
    by (rule history_append_only [OF del, THEN conjunct1, rule_format, OF live])
  from put get del live h c1 c3 c2 show ?thesis by (intro conjI)
qed

end
